theory Spec2Isabelle
  imports Complex_Main "HOL-Library.Finite_Map" "HOL-Library.Word"
begin

section \<open>Values of the host language\<close>

text \<open>
  The registration store of \<^verbatim>\<open>save_registration_updated.js\<close> keeps JSON data. A value
  is one of the six JSON shapes; an object is a finite map from property names to values
  (the order of the properties plays no part in any operation modelled here). The value
  \<^verbatim>\<open>undefined\<close>, which never occurs inside JSON data but is what reading an absent
  property yields, is \<open>None\<close> of \<open>jv option\<close>. Numbers are rationals. A string is a
  list of 16-bit code units, as in the host language; \<open>units\<close> gives the code units of a
  text written with the characters of Latin-1, whose codes are their code units. Property
  names are such texts.
\<close>

type_synonym ustring = "16 word list"

definition units :: "string \<Rightarrow> ustring" where
  "units s = map of_char s"

datatype jv =
    JNull
  | JBool bool
  | JNum rat
  | JStr ustring
  | JArr "jv list"
  | JObj "(string, jv) fmap"

type_synonym js = "jv option"

text \<open>The exceptions that the modelled code can raise or meet.\<close>

datatype error =
    TypeError
  | SyntaxError
  | InvalidFormat

definition bind_e :: "error + 'a \<Rightarrow> ('a \<Rightarrow> error + 'b) \<Rightarrow> error + 'b" where
  "bind_e m f = (case m of Inl e \<Rightarrow> Inl e | Inr x \<Rightarrow> f x)"

text \<open>Truthiness, as tested by \<^verbatim>\<open>!x\<close>, \<^verbatim>\<open>x && y\<close>, \<^verbatim>\<open>x || y\<close> and \<^verbatim>\<open>x ? a : b\<close>.\<close>

fun truthy :: "jv \<Rightarrow> bool" where
  "truthy JNull = False"
| "truthy (JBool b) = b"
| "truthy (JNum q) = (q \<noteq> 0)"
| "truthy (JStr s) = (s \<noteq> [])"
| "truthy (JArr xs) = True"
| "truthy (JObj m) = True"

fun truthy_js :: "js \<Rightarrow> bool" where
  "truthy_js None = False"
| "truthy_js (Some v) = truthy v"

text \<open>
  Strict equality \<^verbatim>\<open>===\<close>. Arrays and objects are compared by reference: one that was
  just produced by \<^verbatim>\<open>JSON.parse\<close> is a fresh object, equal to no value that the caller
  holds, so the comparison of a stored array or object with an argument is false.
\<close>

fun strict_eq :: "js \<Rightarrow> js \<Rightarrow> bool" where
  "strict_eq None None = True"
| "strict_eq (Some JNull) (Some JNull) = True"
| "strict_eq (Some (JBool a)) (Some (JBool b)) = (a = b)"
| "strict_eq (Some (JNum a)) (Some (JNum b)) = (a = b)"
| "strict_eq (Some (JStr a)) (Some (JStr b)) = (a = b)"
| "strict_eq _ _ = False"

text \<open>Decimal digits of a natural number: the name of an array index, and the text of an integer.\<close>

fun nat_digits :: "nat \<Rightarrow> string" where
  "nat_digits n =
     (if n < 10 then [''0123456789'' ! n]
      else nat_digits (n div 10) @ [''0123456789'' ! (n mod 10)])"

declare nat_digits.simps [simp del]

text \<open>
  The own enumerable properties of a value, which is what the spread \<^verbatim>\<open>{...x}\<close> copies:
  the properties of an object, the indexed elements of an array, the indexed code units
  of a string, and nothing for \<^verbatim>\<open>null\<close>, a boolean or a number.
\<close>

fun own_props :: "jv \<Rightarrow> (string, jv) fmap" where
  "own_props (JObj m) = m"
| "own_props (JArr xs) = fmap_of_list (zip (map nat_digits [0..<length xs]) xs)"
| "own_props (JStr s) = fmap_of_list (zip (map nat_digits [0..<length s]) (map (\<lambda>c. JStr [c]) s))"
| "own_props _ = fmempty"

text \<open>
  Reading a property \<^verbatim>\<open>x.k\<close>. On \<^verbatim>\<open>null\<close> it raises a TypeError; an array and a string
  have a \<^verbatim>\<open>length\<close>; otherwise the own property is read and an absent one is
  \<^verbatim>\<open>undefined\<close>. The code reads only data properties (\<^verbatim>\<open>id\<close>, \<^verbatim>\<open>name\<close>, \<^verbatim>\<open>type\<close>, ...),
  never a name that the prototypes define.
\<close>

fun get_prop :: "jv \<Rightarrow> string \<Rightarrow> error + js" where
  "get_prop JNull k = Inl TypeError"
| "get_prop (JArr xs) k =
     Inr (if k = ''length'' then Some (JNum (of_nat (length xs))) else fmlookup (own_props (JArr xs)) k)"
| "get_prop (JStr s) k =
     Inr (if k = ''length'' then Some (JNum (of_nat (length s))) else fmlookup (own_props (JStr s)) k)"
| "get_prop v k = Inr (fmlookup (own_props v) k)"

text \<open>
  The receiver of an array method (\<^verbatim>\<open>push\<close>, \<^verbatim>\<open>find\<close>, \<^verbatim>\<open>findIndex\<close>, \<^verbatim>\<open>filter\<close>,
  \<^verbatim>\<open>map\<close>): on anything but an array the call raises a TypeError, since a JSON value has
  no callable property. \<^verbatim>\<open>Array.isArray\<close> is the same test without the exception.
\<close>

fun as_array :: "jv \<Rightarrow> error + jv list" where
  "as_array (JArr xs) = Inr xs"
| "as_array _ = Inl TypeError"

fun isArray :: "js \<Rightarrow> bool" where
  "isArray (Some (JArr xs)) = True"
| "isArray _ = False"

text \<open>The array methods with a callback that may raise; the first exception ends the call.\<close>

fun js_find :: "(jv \<Rightarrow> error + bool) \<Rightarrow> jv list \<Rightarrow> error + js" where
  "js_find p [] = Inr None"
| "js_find p (x # xs) =
     (case p x of Inl e \<Rightarrow> Inl e | Inr b \<Rightarrow> if b then Inr (Some x) else js_find p xs)"

fun js_findIndex_from :: "int \<Rightarrow> (jv \<Rightarrow> error + bool) \<Rightarrow> jv list \<Rightarrow> error + int" where
  "js_findIndex_from i p [] = Inr (- 1)"
| "js_findIndex_from i p (x # xs) =
     (case p x of Inl e \<Rightarrow> Inl e | Inr b \<Rightarrow> if b then Inr i else js_findIndex_from (i + 1) p xs)"

definition js_findIndex :: "(jv \<Rightarrow> error + bool) \<Rightarrow> jv list \<Rightarrow> error + int" where
  "js_findIndex p xs = js_findIndex_from 0 p xs"

fun js_filter :: "(jv \<Rightarrow> error + bool) \<Rightarrow> jv list \<Rightarrow> error + jv list" where
  "js_filter p [] = Inr []"
| "js_filter p (x # xs) =
     (case p x of Inl e \<Rightarrow> Inl e
      | Inr b \<Rightarrow> (case js_filter p xs of Inl e \<Rightarrow> Inl e
                 | Inr ys \<Rightarrow> Inr (if b then x # ys else ys)))"

fun collect :: "(error + 'a) list \<Rightarrow> error + 'a list" where
  "collect [] = Inr []"
| "collect (Inl e # rs) = Inl e"
| "collect (Inr y # rs) = (case collect rs of Inl e \<Rightarrow> Inl e | Inr ys \<Rightarrow> Inr (y # ys))"

definition js_map :: "('a \<Rightarrow> error + 'b) \<Rightarrow> 'a list \<Rightarrow> error + 'b list" where
  "js_map f xs = collect (map f xs)"

text \<open>\<^verbatim>\<open>Array.prototype.join\<close> on strings.\<close>

fun join :: "ustring \<Rightarrow> ustring list \<Rightarrow> ustring" where
  "join sep [] = []"
| "join sep [s] = s"
| "join sep (s # t # ss) = s @ sep @ join sep (t # ss)"

section \<open>The store\<close>

text \<open>
  \<^verbatim>\<open>localStorage\<close> holds text, and the code only ever looks at that text through its
  truthiness and through \<^verbatim>\<open>JSON.parse\<close>. A text is therefore modelled by what these two
  make of it: the empty string, a text that \<^verbatim>\<open>JSON.parse\<close> rejects with a SyntaxError,
  or a text that it reads as the value \<open>v\<close>. \<^verbatim>\<open>JSON.stringify\<close> of JSON data yields a
  text that reads back as the same data. The same type models the contents of an imported
  file. The store is taken to accept every write (no quota is modelled).
\<close>

datatype raw_text =
    Empty
  | Unparsable
  | Parses jv

fun JSON_parse :: "raw_text \<Rightarrow> error + jv" where
  "JSON_parse Empty = Inl SyntaxError"
| "JSON_parse Unparsable = Inl SyntaxError"
| "JSON_parse (Parses v) = Inr v"

definition JSON_stringify :: "jv \<Rightarrow> raw_text" where
  "JSON_stringify v = Parses v"

text \<open>
  The state of a \<^verbatim>\<open>RegistrationStorage\<close>: its field \<^verbatim>\<open>currentData\<close> and the entry of
  \<^verbatim>\<open>localStorage\<close> under the key \<^verbatim>\<open>all_registrations\<close> (\<open>None\<close> when \<^verbatim>\<open>getItem\<close>
  returns \<^verbatim>\<open>null\<close>). Downloads, alerts and the console are not part of the state: no
  operation reads them back.
\<close>

record state =
  currentData :: jv
  localStorage :: "raw_text option"

definition constructor :: "raw_text option \<Rightarrow> state" where
  "constructor ls = \<lparr>currentData = JNull, localStorage = ls\<rparr>"

section \<open>Reading\<close>

definition getAllRegistrations :: "state \<Rightarrow> jv" where
  "getAllRegistrations st =
     (case localStorage st of
        None \<Rightarrow> JArr []
      | Some stored \<Rightarrow>
          if stored \<noteq> Empty
          then (case JSON_parse stored of Inl e \<Rightarrow> JArr [] | Inr v \<Rightarrow> v)
          else JArr [])"

text \<open>The callback \<^verbatim>\<open>reg => reg.id === id\<close>.\<close>

definition id_is :: "js \<Rightarrow> jv \<Rightarrow> error + bool" where
  "id_is ident reg = bind_e (get_prop reg ''id'') (\<lambda>v. Inr (strict_eq v ident))"

definition getRegistrationById :: "js \<Rightarrow> state \<Rightarrow> error + jv" where
  "getRegistrationById ident st =
     bind_e (as_array (getAllRegistrations st)) (\<lambda>registrations.
     bind_e (js_find (id_is ident) registrations) (\<lambda>found.
     Inr (case found of
            None \<Rightarrow> JNull
          | Some reg \<Rightarrow> if truthy reg then reg else JNull)))"

section \<open>Creating\<close>

text \<open>
  \<^verbatim>\<open>downloadAllRegistrations\<close> builds the export bundle and hands it to the browser. Only
  its control flow is modelled: the read of \<^verbatim>\<open>allRegistrations.length\<close> stands outside
  its \<^verbatim>\<open>try\<close> block and can raise, the rest cannot.
\<close>

definition downloadAllRegistrations :: "state \<Rightarrow> error + bool" where
  "downloadAllRegistrations st =
     (let allRegistrations = getAllRegistrations st
      in bind_e (get_prop allRegistrations ''length'') (\<lambda>len.
         if strict_eq len (Some (JNum 0)) then Inr False else Inr True))"

text \<open>
  \<^verbatim>\<open>saveToJSON(data)\<close>, with the two readings of the clock as arguments: \<open>now\<close> is
  \<^verbatim>\<open>Date.now()\<close> and \<open>isoString\<close> is \<^verbatim>\<open>new Date().toISOString()\<close>. An exception anywhere in
  the \<^verbatim>\<open>try\<close> block gives \<^verbatim>\<open>false\<close>, with the state as it is at that point.
\<close>

definition saveToJSON :: "int \<Rightarrow> ustring \<Rightarrow> jv \<Rightarrow> state \<Rightarrow> bool \<times> state" where
  "saveToJSON now isoString data st =
     (let dataWithMetadata =
            JObj (fmupd ''version'' (JStr (units ''1.0''))
                 (fmupd ''submittedAt'' (JStr isoString)
                 (fmupd ''id'' (JNum (of_int now))
                 (own_props data))));
          st1 = st\<lparr>currentData := dataWithMetadata\<rparr>;
          allRegistrations = getAllRegistrations st1
      in case as_array allRegistrations of
           Inl e \<Rightarrow> (False, st1)
         | Inr regs \<Rightarrow>
             let pushed = JArr (regs @ [dataWithMetadata]);
                 st2 = st1\<lparr>localStorage := Some (JSON_stringify pushed)\<rparr>
             in (case downloadAllRegistrations st2 of
                   Inl e \<Rightarrow> (False, st2)
                 | Inr downloaded \<Rightarrow> (True, st2)))"

section \<open>Updating and deleting\<close>

text \<open>
  \<^verbatim>\<open>updateRegistration(id, updatedData)\<close>; \<open>isoString\<close> is \<^verbatim>\<open>new Date().toISOString()\<close>.
  The new record is \<^verbatim>\<open>{...registrations[index], ...updatedData, updatedAt: isoString}\<close>.
\<close>

definition updateRegistration :: "ustring \<Rightarrow> js \<Rightarrow> jv \<Rightarrow> state \<Rightarrow> bool \<times> state" where
  "updateRegistration isoString ident updatedData st =
     (case bind_e (as_array (getAllRegistrations st)) (\<lambda>registrations.
           bind_e (js_findIndex (id_is ident) registrations) (\<lambda>index.
           Inr (registrations, index))) of
        Inl e \<Rightarrow> (False, st)
      | Inr (registrations, index) \<Rightarrow>
          if index = - 1 then (False, st)
          else
            let merged = JObj (fmupd ''updatedAt'' (JStr isoString)
                           (own_props (registrations ! nat index) ++\<^sub>f own_props updatedData));
                registrations' = registrations[nat index := merged]
            in (True, st\<lparr>localStorage := Some (JSON_stringify (JArr registrations'))\<rparr>))"

text \<open>The callback \<^verbatim>\<open>reg => reg.id !== id\<close>.\<close>

definition id_is_not :: "js \<Rightarrow> jv \<Rightarrow> error + bool" where
  "id_is_not ident reg = bind_e (get_prop reg ''id'') (\<lambda>v. Inr (\<not> strict_eq v ident))"

definition deleteRegistration :: "js \<Rightarrow> state \<Rightarrow> bool \<times> state" where
  "deleteRegistration ident st =
     (case bind_e (as_array (getAllRegistrations st)) (\<lambda>registrations.
           bind_e (js_filter (id_is_not ident) registrations) (\<lambda>filteredRegistrations.
           Inr (registrations, filteredRegistrations))) of
        Inl e \<Rightarrow> (False, st)
      | Inr (registrations, filteredRegistrations) \<Rightarrow>
          if length registrations = length filteredRegistrations then (False, st)
          else (True, st\<lparr>localStorage := Some (JSON_stringify (JArr filteredRegistrations))\<rparr>))"

text \<open>
  \<^verbatim>\<open>clearAllRegistrations()\<close>; the argument is the answer of the user to the confirmation
  dialog.
\<close>

definition clearAllRegistrations :: "bool \<Rightarrow> state \<Rightarrow> bool \<times> state" where
  "clearAllRegistrations confirmed st =
     (if confirmed then (True, st\<lparr>localStorage := None\<rparr>) else (False, st))"

section \<open>Filtering\<close>

text \<open>
  One test of the callback of \<^verbatim>\<open>filterRegistrations\<close>:
  \<^verbatim>\<open>filters.k && reg.k !== filters.k\<close>. The right operand is evaluated only when the
  left one is truthy.
\<close>

definition mismatch :: "jv \<Rightarrow> jv \<Rightarrow> string \<Rightarrow> error + bool" where
  "mismatch filters reg k =
     bind_e (get_prop filters k) (\<lambda>wanted.
     if truthy_js wanted
     then bind_e (get_prop reg k) (\<lambda>v. Inr (\<not> strict_eq v wanted))
     else Inr False)"

definition filter_matches :: "jv \<Rightarrow> jv \<Rightarrow> error + bool" where
  "filter_matches filters reg =
     bind_e (mismatch filters reg ''type'') (\<lambda>m1.
     bind_e (mismatch filters reg ''status'') (\<lambda>m2.
     bind_e (mismatch filters reg ''city'') (\<lambda>m3.
     bind_e (mismatch filters reg ''state'') (\<lambda>m4.
     Inr (\<not> (m1 \<or> m2 \<or> m3 \<or> m4))))))"

definition filterRegistrations :: "jv \<Rightarrow> state \<Rightarrow> error + jv list" where
  "filterRegistrations filters st =
     bind_e (as_array (getAllRegistrations st)) (\<lambda>registrations.
     js_filter (filter_matches filters) registrations)"

section \<open>Conversion to text\<close>

text \<open>
  The conversion of a value to a string, as done by a template literal, by
  \<^verbatim>\<open>.toString()\<close> and by \<^verbatim>\<open>RegExp.prototype.test\<close>. An integer below \<open>10\<^sup>2\<^sup>1\<close> is written
  with its decimal digits. The digits of any other number are chosen by the host (the
  shortest text that reads back as the same double); that choice is the parameter
  \<open>fmt\<close>. An array is the join of its elements with commas, \<^verbatim>\<open>null\<close> elements being
  empty. An object is \<^verbatim>\<open>[object Object]\<close>, unless it has a property \<^verbatim>\<open>toString\<close> of
  its own: that one is JSON data and cannot be called, so the conversion raises a
  TypeError.
\<close>

definition Number_toString :: "(rat \<Rightarrow> string) \<Rightarrow> rat \<Rightarrow> string" where
  "Number_toString fmt q =
     (if q = of_int \<lfloor>q\<rfloor> \<and> \<bar>q\<bar> < 10 ^ 21
      then (if q < 0 then ''-'' else []) @ nat_digits (nat \<bar>\<lfloor>q\<rfloor>\<bar>)
      else fmt q)"

fun ToString :: "(rat \<Rightarrow> string) \<Rightarrow> jv \<Rightarrow> error + ustring" where
  "ToString fmt JNull = Inr (units ''null'')"
| "ToString fmt (JBool b) = Inr (units (if b then ''true'' else ''false''))"
| "ToString fmt (JNum q) = Inr (units (Number_toString fmt q))"
| "ToString fmt (JStr s) = Inr s"
| "ToString fmt (JArr xs) =
     (case collect (map (\<lambda>x. if x = JNull then Inr [] else ToString fmt x) xs) of
        Inl e \<Rightarrow> Inl e
      | Inr ss \<Rightarrow> Inr (join (units '','') ss))"
| "ToString fmt (JObj m) =
     (if ''toString'' |\<in>| fmdom m then Inl TypeError else Inr (units ''[object Object]''))"

fun ToString_js :: "(rat \<Rightarrow> string) \<Rightarrow> js \<Rightarrow> error + ustring" where
  "ToString_js fmt None = Inr (units ''undefined'')"
| "ToString_js fmt (Some v) = ToString fmt v"

text \<open>
  A value that is neither an array nor an object: \<^verbatim>\<open>undefined\<close>, \<^verbatim>\<open>null\<close>, a boolean, a
  number or a string, which is what a form field holds. Its conversion to text cannot raise.
\<close>

fun primitive :: "js \<Rightarrow> bool" where
  "primitive (Some (JArr xs)) = False"
| "primitive (Some (JObj m)) = False"
| "primitive v = True"

section \<open>Export to CSV\<close>

definition headers :: "ustring list" where
  "headers = map units [''ID'', ''Name'', ''Email'', ''City'', ''State'', ''Postal Code'',
                        ''Type'', ''Status'', ''Gender'', ''DOB'', ''Submitted At'']"

text \<open>The value \<^verbatim>\<open>x || ''\<close>.\<close>

definition or_empty :: "js \<Rightarrow> js" where
  "or_empty v = (if truthy_js v then v else Some (JStr []))"

text \<open>The row of values that \<^verbatim>\<open>exportToCSV\<close> builds for one registration.\<close>

definition csv_row :: "jv \<Rightarrow> error + js list" where
  "csv_row reg =
     bind_e (get_prop reg ''id'') (\<lambda>c0.
     bind_e (get_prop reg ''name'') (\<lambda>c1.
     bind_e (get_prop reg ''email'') (\<lambda>c2.
     bind_e (get_prop reg ''city'') (\<lambda>c3.
     bind_e (get_prop reg ''state'') (\<lambda>c4.
     bind_e (get_prop reg ''postalCode'') (\<lambda>c5.
     bind_e (get_prop reg ''type'') (\<lambda>c6.
     bind_e (get_prop reg ''status'') (\<lambda>c7.
     bind_e (get_prop reg ''gender'') (\<lambda>c8.
     bind_e (get_prop reg ''dob'') (\<lambda>c9.
     bind_e (get_prop reg ''submittedAt'') (\<lambda>c10.
     Inr [c0, c1, or_empty c2, c3, c4, c5, c6, c7, c8, c9, c10])))))))))))"

text \<open>The cell \<^verbatim>\<open>`"${cell}"`\<close>.\<close>

definition quote_cell :: "(rat \<Rightarrow> string) \<Rightarrow> js \<Rightarrow> error + ustring" where
  "quote_cell fmt cell = bind_e (ToString_js fmt cell) (\<lambda>s. Inr ([0x22] @ s @ [0x22]))"

definition csv_line :: "(rat \<Rightarrow> string) \<Rightarrow> js list \<Rightarrow> error + ustring" where
  "csv_line fmt row = bind_e (js_map (quote_cell fmt) row) (\<lambda>cells. Inr (join (units '','') cells))"

definition exportToCSV :: "(rat \<Rightarrow> string) \<Rightarrow> state \<Rightarrow> error + ustring" where
  "exportToCSV fmt st =
     (let registrations = getAllRegistrations st
      in bind_e (get_prop registrations ''length'') (\<lambda>len.
         if strict_eq len (Some (JNum 0)) then Inr []
         else
           bind_e (as_array registrations) (\<lambda>regs.
           bind_e (js_map csv_row regs) (\<lambda>rows.
           bind_e (js_map (csv_line fmt) rows) (\<lambda>lines.
           Inr (join [0x0A] (join (units '','') headers # lines)))))))"

text \<open>
  The number of lines of a text: one more than the number of its line feeds, which is the
  number of pieces that splitting the text at the line feeds gives.
\<close>

definition line_count :: "ustring \<Rightarrow> nat" where
  "line_count s = Suc (length (filter (\<lambda>c. c = 0x0A) s))"

section \<open>Validation\<close>

text \<open>
  \<^verbatim>\<open>String.prototype.trim\<close> removes the white space and the line terminators of the
  language from both ends: tab, line feed, vertical tab, form feed, carriage return,
  space, the no-break space U+00A0, U+1680, U+2000 to U+200A, the separators U+2028 and
  U+2029, U+202F, U+205F, U+3000 and the byte order mark U+FEFF.
\<close>

definition is_space :: "16 word \<Rightarrow> bool" where
  "is_space c =
     (c \<in> set [0x09, 0x0A, 0x0B, 0x0C, 0x0D, 0x20, 0xA0, 0x1680, 0x2028, 0x2029, 0x202F,
                0x205F, 0x3000, 0xFEFF]
      \<or> (0x2000 \<le> c \<and> c \<le> 0x200A))"

definition trim :: "ustring \<Rightarrow> ustring" where
  "trim s = rev (dropWhile is_space (rev (dropWhile is_space s)))"

text \<open>The test of \<^verbatim>\<open>/^\d{6}$/\<close>: the text is six of the digits 0 to 9.\<close>

definition is_digit :: "16 word \<Rightarrow> bool" where
  "is_digit c = (0x30 \<le> c \<and> c \<le> 0x39)"

definition six_digits :: "ustring \<Rightarrow> bool" where
  "six_digits s = (length s = 6 \<and> list_all is_digit s)"

record validation =
  valid :: bool
  errors :: "ustring list"

definition requiredFields :: "string list" where
  "requiredFields = [''name'', ''address1'', ''city'', ''state'', ''postalCode'', ''dob'',
                     ''gender'', ''status'', ''onboardingDate'', ''type'']"

text \<open>
  The body of the loop over the required fields: what it pushes for one field, from the
  test \<^verbatim>\<open>!data[field] || data[field].toString().trim() === ''\<close>.
\<close>

definition required_error :: "(rat \<Rightarrow> string) \<Rightarrow> jv \<Rightarrow> string \<Rightarrow> error + ustring list" where
  "required_error fmt data field =
     bind_e (get_prop data field) (\<lambda>v.
     if \<not> truthy_js v then Inr [units (field @ '' is required'')]
     else bind_e (ToString_js fmt v) (\<lambda>s.
          if trim s = [] then Inr [units (field @ '' is required'')] else Inr []))"

text \<open>The test \<^verbatim>\<open>!data.f || data.f.length === 0\<close> of a multi-select field, with its message.\<close>

definition multi_error :: "jv \<Rightarrow> string \<Rightarrow> ustring \<Rightarrow> error + ustring list" where
  "multi_error data field msg =
     bind_e (get_prop data field) (\<lambda>v.
     case v of
       None \<Rightarrow> Inr [msg]
     | Some x \<Rightarrow>
         if \<not> truthy x then Inr [msg]
         else bind_e (get_prop x ''length'') (\<lambda>len.
              if strict_eq len (Some (JNum 0)) then Inr [msg] else Inr []))"

text \<open>The test \<^verbatim>\<open>data.postalCode && !/^\d{6}$/.test(data.postalCode)\<close>.\<close>

definition postal_error :: "(rat \<Rightarrow> string) \<Rightarrow> jv \<Rightarrow> error + ustring list" where
  "postal_error fmt data =
     bind_e (get_prop data ''postalCode'') (\<lambda>v.
     if truthy_js v
     then bind_e (ToString_js fmt v) (\<lambda>s.
          if \<not> six_digits s then Inr [(units ''Postal code must be 6 digits'')] else Inr [])
     else Inr [])"

definition validateData :: "(rat \<Rightarrow> string) \<Rightarrow> jv \<Rightarrow> error + validation" where
  "validateData fmt data =
     bind_e (js_map (required_error fmt data) requiredFields) (\<lambda>required.
     bind_e (multi_error data ''cityMulti'' (units ''At least one city must be selected'')) (\<lambda>e1.
     bind_e (multi_error data ''pinCode'' (units ''At least one pin code must be selected'')) (\<lambda>e2.
     bind_e (multi_error data ''areaMulti'' (units ''At least one area must be selected'')) (\<lambda>e3.
     bind_e (multi_error data ''languages'' (units ''At least one language must be selected'')) (\<lambda>e4.
     bind_e (postal_error fmt data) (\<lambda>e5.
     let errs = concat required @ e1 @ e2 @ e3 @ e4 @ e5
     in Inr \<lparr>valid = (length errs = 0), errors = errs\<rparr>))))))"

section \<open>Import\<close>

text \<open>
  A number of the host language is a double, and the sum of two numbers is the double
  nearest to their exact sum, the one with the even mantissa when two are equally near.
  \<open>to_double\<close> is that rounding on the rationals: the number is scaled so that 53 binary
  digits stand before the point (fewer below \<open>2 ^ - 1022\<close>, where the doubles are
  evenly spaced), rounded to an integer, and scaled back. It is meant for magnitudes
  below \<open>2 ^ 1024\<close>, which a clock reading plus a fraction always is.
\<close>

text \<open>The number of binary digits of a natural number.\<close>

fun bit_length :: "nat \<Rightarrow> nat" where
  "bit_length n = (if n = 0 then 0 else Suc (bit_length (n div 2)))"

declare bit_length.simps [simp del]

text \<open>The exponent \<open>e\<close> of a positive number \<open>q\<close>, for which \<open>2 ^ e \<le> q < 2 ^ (e + 1)\<close>.\<close>

definition binary_exponent :: "rat \<Rightarrow> int" where
  "binary_exponent q =
     (if 1 \<le> q then int (bit_length (nat \<lfloor>q\<rfloor>)) - 1
      else - int (bit_length (nat \<lceil>1 / q\<rceil> - 1)))"

definition round_half_even :: "rat \<Rightarrow> int" where
  "round_half_even x =
     (let f = \<lfloor>x\<rfloor>; d = x - of_int f
      in if d < 1 / 2 then f
         else if 1 / 2 < d then f + 1
         else if even f then f else f + 1)"

definition scale2 :: "rat \<Rightarrow> int \<Rightarrow> rat" where
  "scale2 q e = (if 0 \<le> e then q * 2 ^ nat e else q / 2 ^ nat (- e))"

definition to_double :: "rat \<Rightarrow> rat" where
  "to_double q =
     (if q = 0 then 0
      else let e = max (binary_exponent \<bar>q\<bar>) (- 1022)
           in scale2 (of_int (round_half_even (scale2 q (52 - e)))) (e - 52))"

text \<open>
  The file is read to text and parsed. Each imported record gets
  \<^verbatim>\<open>id: Date.now() + Math.random()\<close> and \<^verbatim>\<open>importedAt: new Date().toISOString()\<close>; the
  three readings made for the record at position \<open>i\<close> are \<open>ticks i\<close>. The id is the
  double that the addition yields.
\<close>

record tick =
  date_now :: int
  math_random :: rat
  iso_string :: ustring

definition stamp_imported :: "tick \<Rightarrow> jv \<Rightarrow> jv" where
  "stamp_imported t reg =
     JObj (fmupd ''importedAt'' (JStr (iso_string t))
          (fmupd ''id'' (JNum (to_double (of_int (date_now t) + math_random t)))
          (own_props reg)))"

text \<open>
  The iteration of a string goes by code points: a leading surrogate followed by a
  trailing one is one element, any other code unit is an element of its own.
\<close>

fun code_points :: "ustring \<Rightarrow> ustring list" where
  "code_points [] = []"
| "code_points [c] = [[c]]"
| "code_points (c # d # s) =
     (if 0xD800 \<le> c \<and> c \<le> 0xDBFF \<and> 0xDC00 \<le> d \<and> d \<le> 0xDFFF
      then [c, d] # code_points s
      else [c] # code_points (d # s))"

text \<open>
  The spread \<^verbatim>\<open>[...x]\<close> in an array literal: the elements of an array, the code points
  of a string, a TypeError on a value that is not iterable.
\<close>

fun spread_iterable :: "jv \<Rightarrow> error + jv list" where
  "spread_iterable (JArr xs) = Inr xs"
| "spread_iterable (JStr s) = Inr (map JStr (code_points s))"
| "spread_iterable _ = Inl TypeError"

text \<open>The choice of \<^verbatim>\<open>registrationsToImport\<close> from the parsed data.\<close>

definition registrationsToImport :: "jv \<Rightarrow> error + jv list" where
  "registrationsToImport data =
     (if isArray (Some data) then as_array data
      else bind_e (get_prop data ''registrations'') (\<lambda>r.
           if truthy_js r \<and> isArray r
           then (case r of Some v \<Rightarrow> as_array v | None \<Rightarrow> Inl InvalidFormat)
           else Inl InvalidFormat))"

definition importFromJSON :: "(nat \<Rightarrow> tick) \<Rightarrow> raw_text \<Rightarrow> state \<Rightarrow> bool \<times> state" where
  "importFromJSON ticks file_text st =
     (case bind_e (JSON_parse file_text) (\<lambda>data.
           bind_e (registrationsToImport data) (\<lambda>toImport.
           let existing = getAllRegistrations st
           in bind_e (spread_iterable existing) (\<lambda>old.
              Inr (old @ map (\<lambda>(i, reg). stamp_imported (ticks i) reg) (enumerate 0 toImport))))) of
        Inl e \<Rightarrow> (False, st)
      | Inr merged \<Rightarrow> (True, st\<lparr>localStorage := Some (JSON_stringify (JArr merged))\<rparr>))"

section \<open>The violations of a form\<close>

text \<open>
  What the validation is to report, stated on the data alone, for comparison with
  \<open>validateData\<close>. A form holds a string under each required field that it has, and an
  array under each multi-select field that it has. A required field is violated when it
  is absent or holds nothing but white space; a multi-select field when it is absent or
  nothing is selected; the postal code when one is supplied and it is not six digits. The
  violations are listed in the order of the checks.
\<close>

definition white_space :: "16 word set" where
  "white_space = {0x09, 0x0A, 0x0B, 0x0C, 0x0D, 0x20, 0xA0, 0x1680, 0x2028, 0x2029, 0x202F,
                  0x205F, 0x3000, 0xFEFF} \<union> {0x2000 .. 0x200A}"

definition spec_missing :: "js \<Rightarrow> bool" where
  "spec_missing v = (case v of Some (JStr s) \<Rightarrow> set s \<subseteq> white_space | _ \<Rightarrow> v = None)"

definition spec_unselected :: "js \<Rightarrow> bool" where
  "spec_unselected v = (case v of Some (JArr xs) \<Rightarrow> xs = [] | _ \<Rightarrow> v = None)"

definition spec_malformed :: "js \<Rightarrow> bool" where
  "spec_malformed v =
     (case v of
        Some (JStr s) \<Rightarrow> s \<noteq> [] \<and> \<not> (length s = 6 \<and> set s \<subseteq> {0x30 .. 0x39})
      | _ \<Rightarrow> False)"

definition spec_violations :: "(string, jv) fmap \<Rightarrow> ustring list" where
  "spec_violations m =
     concat (map (\<lambda>f. if spec_missing (fmlookup m f) then [units (f @ '' is required'')] else [])
               requiredFields)
     @ (if spec_unselected (fmlookup m ''cityMulti'')
        then [units ''At least one city must be selected''] else [])
     @ (if spec_unselected (fmlookup m ''pinCode'')
        then [units ''At least one pin code must be selected''] else [])
     @ (if spec_unselected (fmlookup m ''areaMulti'')
        then [units ''At least one area must be selected''] else [])
     @ (if spec_unselected (fmlookup m ''languages'')
        then [units ''At least one language must be selected''] else [])
     @ (if spec_malformed (fmlookup m ''postalCode'')
        then [units ''Postal code must be 6 digits''] else [])"

definition form_shaped :: "(string, jv) fmap \<Rightarrow> bool" where
  "form_shaped m =
     (list_all (\<lambda>f. case fmlookup m f of None \<Rightarrow> True | Some (JStr s) \<Rightarrow> True | Some _ \<Rightarrow> False)
        requiredFields
      \<and> list_all (\<lambda>f. case fmlookup m f of None \<Rightarrow> True | Some (JArr xs) \<Rightarrow> True | Some _ \<Rightarrow> False)
          [''cityMulti'', ''pinCode'', ''areaMulti'', ''languages''])"

section \<open>Notation for the statements\<close>

text \<open>
  The state of a storage object that has not saved anything yet (its \<^verbatim>\<open>currentData\<close> is
  still \<^verbatim>\<open>null\<close>) over a store that holds the text of the collection \<open>regs\<close>.
\<close>

abbreviation store_of :: "jv list \<Rightarrow> state" where
  "store_of regs \<equiv> \<lparr>currentData = JNull, localStorage = Some (Parses (JArr regs))\<rparr>"

text \<open>A text between two double quotes.\<close>

abbreviation quoted :: "ustring \<Rightarrow> ustring" where
  "quoted t \<equiv> [0x22] @ t @ [0x22]"

text \<open>A registration as the form produces it, and one whose name has a line feed in it.\<close>

abbreviation sample_registration :: jv where
  "sample_registration \<equiv>
     JObj (fmupd ''id'' (JNum 1) (fmupd ''name'' (JStr (units ''Asha'')) (fmupd ''city'' (JStr (units ''Pune''))
          (fmupd ''state'' (JStr (units ''MH'')) (fmupd ''postalCode'' (JStr (units ''411001''))
          (fmupd ''type'' (JStr (units ''Individual'')) (fmupd ''status'' (JStr (units ''Active''))
          (fmupd ''gender'' (JStr (units ''F'')) (fmupd ''dob'' (JStr (units ''2000-01-01''))
          (fmupd ''submittedAt'' (JStr (units ''T'')) fmempty))))))))))"

abbreviation sample_two_line_name :: jv where
  "sample_two_line_name \<equiv>
     JObj (fmupd ''id'' (JNum 1) (fmupd ''name'' (JStr (units [CHR ''A'', CHR 0x0A, CHR ''B''])) (fmupd ''city'' (JStr (units ''Pune''))
          (fmupd ''state'' (JStr (units ''MH'')) (fmupd ''postalCode'' (JStr (units ''411001''))
          (fmupd ''type'' (JStr (units ''Individual'')) (fmupd ''status'' (JStr (units ''Active''))
          (fmupd ''gender'' (JStr (units ''F'')) (fmupd ''dob'' (JStr (units ''2000-01-01''))
          (fmupd ''submittedAt'' (JStr (units ''T'')) fmempty))))))))))"

text \<open>
  A form with every field filled in, but for the name, the postal code and the cities
  selected.
\<close>

abbreviation sample_form :: "ustring \<Rightarrow> ustring \<Rightarrow> jv list \<Rightarrow> (string, jv) fmap" where
  "sample_form name postalCode cities \<equiv>
     fmupd ''name'' (JStr name) (fmupd ''address1'' (JStr (units ''12 MG Road''))
    (fmupd ''city'' (JStr (units ''Bengaluru'')) (fmupd ''state'' (JStr (units ''KA''))
    (fmupd ''postalCode'' (JStr postalCode) (fmupd ''dob'' (JStr (units ''1990-05-17''))
    (fmupd ''gender'' (JStr (units ''F'')) (fmupd ''status'' (JStr (units ''Active''))
    (fmupd ''onboardingDate'' (JStr (units ''2024-01-15''))
    (fmupd ''type'' (JStr (units ''Individual'')) (fmupd ''cityMulti'' (JArr cities)
    (fmupd ''pinCode'' (JArr [JStr (units ''560001'')]) (fmupd ''areaMulti'' (JArr [JStr (units ''X'')])
    (fmupd ''languages'' (JArr [JStr (units ''en'')]) fmempty)))))))))))))"

section \<open>Properties\<close>

lemma bind_e_simps [simp]:
  "bind_e (Inl e) f = Inl e"
  "bind_e (Inr x) f = f x"
  by (simp_all add: bind_e_def)

subsection \<open>Code units\<close>

lemma unat_of_char: "unat (of_char c :: 16 word) = of_char c"
proof -
  have "(of_char c :: 16 word) = of_nat (of_char c)"
    by (rule of_nat_of_char [symmetric])
  moreover have "(of_char c :: nat) < 2 ^ 16"
    by (rule less_trans [OF nat_of_char_less_256]) simp
  ultimately show ?thesis
    by (simp add: unat_of_nat)
qed

lemma of_char_unit_inj: "((of_char c :: 16 word) = of_char d) = (c = d)"
proof
  assume "(of_char c :: 16 word) = of_char d"
  then have "unat (of_char c :: 16 word) = unat (of_char d :: 16 word)"
    by simp
  then have "(of_char c :: nat) = of_char d"
    by (simp only: unat_of_char)
  then show "c = d"
    by simp
qed simp

lemma units_eq_iff [simp]: "(units s = units t) = (s = t)"
  unfolding units_def
proof (induction s arbitrary: t)
  case Nil
  then show ?case by auto
next
  case (Cons c s)
  then show ?case
    by (cases t) (simp_all add: of_char_unit_inj)
qed

lemma units_simps [simp]:
  "units [] = []"
  "length (units s) = length s"
  "(units s = []) = (s = [])"
  by (simp_all add: units_def)

subsection \<open>The store after a write\<close>

lemma getAllRegistrations_setItem [simp]:
  "getAllRegistrations (st\<lparr>localStorage := Some (JSON_stringify v)\<rparr>) = v"
  by (simp add: getAllRegistrations_def JSON_stringify_def)

lemma getAllRegistrations_currentData [simp]:
  "getAllRegistrations (st\<lparr>currentData := d\<rparr>) = getAllRegistrations st"
  by (simp add: getAllRegistrations_def)

lemma getAllRegistrations_cases:
  "getAllRegistrations st =
     (case localStorage st of Some (Parses v) \<Rightarrow> v | _ \<Rightarrow> JArr [])"
  by (simp add: getAllRegistrations_def split: option.splits raw_text.splits)

lemma js_find_fresh:
  "list_all (\<lambda>x. p x = Inr False) xs \<Longrightarrow> p d = Inr True \<Longrightarrow> js_find p (xs @ [d]) = Inr (Some d)"
  by (induction xs) simp_all

lemma saveToJSON_array:
  assumes "getAllRegistrations st = JArr regs"
  shows "saveToJSON now stamp data st =
     (True, st\<lparr>currentData := JObj (fmupd ''version'' (JStr (units ''1.0''))
                 (fmupd ''submittedAt'' (JStr stamp)
                 (fmupd ''id'' (JNum (of_int now))
                 (own_props data)))),
              localStorage := Some (JSON_stringify (JArr (regs @ [JObj (fmupd ''version'' (JStr (units ''1.0''))
                 (fmupd ''submittedAt'' (JStr stamp)
                 (fmupd ''id'' (JNum (of_int now))
                 (own_props data))))])))\<rparr>)"
  using assms by (simp add: saveToJSON_def Let_def downloadAllRegistrations_def)

subsection \<open>Reading all registrations\<close>

text \<open>
  Claim C5: \<^verbatim>\<open>getAllRegistrations\<close> is to return the empty sequence when the stored value
  is absent, does not parse, or is a foreign value. The code returns whatever
  \<^verbatim>\<open>JSON.parse\<close> makes of the stored text: when the entry holds the text of a JSON object,
  here \<^verbatim>\<open>{"theme":"dark"}\<close>, the result is that object, not an empty array and not an
  array at all.
\<close>

theorem getAllRegistrations_foreign_value:
  "getAllRegistrations (constructor (Some (Parses (JObj (fmupd ''theme'' (JStr (units ''dark'')) fmempty)))))
     = JObj (fmupd ''theme'' (JStr (units ''dark'')) fmempty)"
  by (simp add: getAllRegistrations_def constructor_def)

subsection \<open>Create, then read by id\<close>

text \<open>
  When no record already stored has the id \<open>now\<close> (for each stored record the test
  \<^verbatim>\<open>reg.id === now\<close> is false), a successful \<^verbatim>\<open>saveToJSON(r)\<close> at clock reading \<open>now\<close>
  followed by \<^verbatim>\<open>getRegistrationById(now)\<close> returns \<open>r\<close> with \<^verbatim>\<open>id = now\<close>, \<^verbatim>\<open>submittedAt\<close>
  and \<^verbatim>\<open>version = "1.0"\<close> added.
\<close>

lemma create_then_read_fresh_id:
  assumes "saveToJSON now stamp (JObj r) st = (True, st')"
    and "getAllRegistrations st = JArr regs"
    and "list_all (\<lambda>reg. id_is (Some (JNum (of_int now))) reg = Inr False) regs"
  shows "getRegistrationById (Some (JNum (of_int now))) st' =
           Inr (JObj (fmupd ''version'' (JStr (units ''1.0''))
                     (fmupd ''submittedAt'' (JStr stamp)
                     (fmupd ''id'' (JNum (of_int now)) r))))"
proof -
  let ?d = "JObj (fmupd ''version'' (JStr (units ''1.0''))
                     (fmupd ''submittedAt'' (JStr stamp)
                     (fmupd ''id'' (JNum (of_int now)) r)))"
  have st': "getAllRegistrations st' = JArr (regs @ [?d])"
    using assms(1) saveToJSON_array [OF assms(2), of now stamp "JObj r"] by auto
  have hit: "id_is (Some (JNum (of_int now))) ?d = Inr True"
    by (simp add: id_is_def)
  show ?thesis
    by (simp add: getRegistrationById_def st' js_find_fresh [OF assms(3) hit])
qed

text \<open>The lemma at a store of one record with id 1, written to at clock reading 2.\<close>

lemma create_then_read_fresh_id_example:
  "saveToJSON 2 (units ''T'') (JObj (fmupd ''name'' (JStr (units ''New'')) fmempty))
       (constructor (Some (Parses (JArr [JObj (fmupd ''id'' (JNum 1) fmempty)]))))
     = (True, \<lparr>currentData = JObj (fmupd ''version'' (JStr (units ''1.0'')) (fmupd ''submittedAt'' (JStr (units ''T''))
                    (fmupd ''id'' (JNum 2) (fmupd ''name'' (JStr (units ''New'')) fmempty)))),
               localStorage = Some (Parses (JArr [JObj (fmupd ''id'' (JNum 1) fmempty),
                  JObj (fmupd ''version'' (JStr (units ''1.0'')) (fmupd ''submittedAt'' (JStr (units ''T''))
                    (fmupd ''id'' (JNum 2) (fmupd ''name'' (JStr (units ''New'')) fmempty))))]))\<rparr>)
   \<and> getAllRegistrations (constructor (Some (Parses (JArr [JObj (fmupd ''id'' (JNum 1) fmempty)]))))
     = JArr [JObj (fmupd ''id'' (JNum 1) fmempty)]
   \<and> list_all (\<lambda>reg. id_is (Some (JNum 2)) reg = Inr False) [JObj (fmupd ''id'' (JNum 1) fmempty)]
   \<and> getRegistrationById (Some (JNum 2))
        \<lparr>currentData = JObj (fmupd ''version'' (JStr (units ''1.0'')) (fmupd ''submittedAt'' (JStr (units ''T''))
                    (fmupd ''id'' (JNum 2) (fmupd ''name'' (JStr (units ''New'')) fmempty)))),
         localStorage = Some (Parses (JArr [JObj (fmupd ''id'' (JNum 1) fmempty),
                  JObj (fmupd ''version'' (JStr (units ''1.0'')) (fmupd ''submittedAt'' (JStr (units ''T''))
                    (fmupd ''id'' (JNum 2) (fmupd ''name'' (JStr (units ''New'')) fmempty))))]))\<rparr>
     = Inr (JObj (fmupd ''version'' (JStr (units ''1.0'')) (fmupd ''submittedAt'' (JStr (units ''T''))
                    (fmupd ''id'' (JNum 2) (fmupd ''name'' (JStr (units ''New'')) fmempty)))))"
proof -
  let ?st = "constructor (Some (Parses (JArr [JObj (fmupd ''id'' (JNum 1) fmempty)])))"
  let ?d = "JObj (fmupd ''version'' (JStr (units ''1.0'')) (fmupd ''submittedAt'' (JStr (units ''T''))
                    (fmupd ''id'' (JNum 2) (fmupd ''name'' (JStr (units ''New'')) fmempty))))"
  let ?st' = "\<lparr>currentData = ?d,
               localStorage = Some (Parses (JArr [JObj (fmupd ''id'' (JNum 1) fmempty), ?d]))\<rparr>"
  have h2: "getAllRegistrations ?st = JArr [JObj (fmupd ''id'' (JNum 1) fmempty)]"
    by (simp add: getAllRegistrations_def constructor_def)
  have h1: "saveToJSON 2 (units ''T'') (JObj (fmupd ''name'' (JStr (units ''New'')) fmempty)) ?st = (True, ?st')"
    unfolding saveToJSON_array [OF h2] by (simp add: constructor_def JSON_stringify_def)
  have h3: "list_all (\<lambda>reg. id_is (Some (JNum (of_int 2))) reg = Inr False) [JObj (fmupd ''id'' (JNum 1) fmempty)]"
    by (simp add: id_is_def)
  from create_then_read_fresh_id [OF h1 h2 h3] h1 h2 h3 show ?thesis by simp
qed

text \<open>
  Claim C1: a successful \<^verbatim>\<open>saveToJSON(r)\<close> followed at once by \<^verbatim>\<open>getRegistrationById\<close> with
  the id assigned during the creation is to return \<open>r\<close> plus the fields \<^verbatim>\<open>id\<close>,
  \<^verbatim>\<open>submittedAt\<close> and \<^verbatim>\<open>version\<close>. The code assigns \<^verbatim>\<open>id: Date.now()\<close>, which its comment
  calls a unique id for each registration, without comparing it with the ids already
  stored. Here the store holds a record made at the clock reading 1700000000000; a second
  \<^verbatim>\<open>saveToJSON\<close> at the same reading succeeds, and the read by the id it assigned returns
  the older record, which is not the record just created.
\<close>

theorem create_then_read_same_clock_reading:
  "fst (saveToJSON 1700000000000 (units ''2023-11-14T22:13:20.000Z'')
          (JObj (fmupd ''name'' (JStr (units ''New'')) fmempty))
          (constructor (Some (Parses (JArr
             [JObj (fmupd ''id'' (JNum 1700000000000) (fmupd ''name'' (JStr (units ''Old'')) fmempty))])))))
   \<and> getRegistrationById (Some (JNum 1700000000000))
        (snd (saveToJSON 1700000000000 (units ''2023-11-14T22:13:20.000Z'')
          (JObj (fmupd ''name'' (JStr (units ''New'')) fmempty))
          (constructor (Some (Parses (JArr
             [JObj (fmupd ''id'' (JNum 1700000000000) (fmupd ''name'' (JStr (units ''Old'')) fmempty))]))))))
     = Inr (JObj (fmupd ''id'' (JNum 1700000000000) (fmupd ''name'' (JStr (units ''Old'')) fmempty)))
   \<and> JObj (fmupd ''id'' (JNum 1700000000000) (fmupd ''name'' (JStr (units ''Old'')) fmempty))
     \<noteq> JObj (fmupd ''version'' (JStr (units ''1.0''))
            (fmupd ''submittedAt'' (JStr (units ''2023-11-14T22:13:20.000Z''))
            (fmupd ''id'' (JNum 1700000000000) (fmupd ''name'' (JStr (units ''New'')) fmempty))))"
proof -
  let ?old = "fmupd ''id'' (JNum 1700000000000) (fmupd ''name'' (JStr (units ''Old'')) fmempty)"
  let ?new = "fmupd ''version'' (JStr (units ''1.0''))
            (fmupd ''submittedAt'' (JStr (units ''2023-11-14T22:13:20.000Z''))
            (fmupd ''id'' (JNum 1700000000000) (fmupd ''name'' (JStr (units ''New'')) fmempty)))"
  have stored: "getAllRegistrations (constructor (Some (Parses (JArr [JObj ?old])))) = JArr [JObj ?old]"
    by (simp add: getAllRegistrations_def constructor_def)
  have differ: "fmlookup ?old ''name'' \<noteq> fmlookup ?new ''name''"
    by simp
  then have "?old \<noteq> ?new"
    by metis
  then show ?thesis
    by (simp add: saveToJSON_array [OF stored] getRegistrationById_def id_is_def)
qed

subsection \<open>Callbacks on records that are not null\<close>

lemma get_prop_nonnull:
  "reg \<noteq> JNull \<Longrightarrow> k \<noteq> ''length'' \<Longrightarrow> get_prop reg k = Inr (fmlookup (own_props reg) k)"
  by (cases reg) simp_all

lemma id_is_not_nonnull:
  "reg \<noteq> JNull \<Longrightarrow> id_is_not ident reg = Inr (id_is ident reg \<noteq> Inr True)"
  by (simp add: id_is_not_def id_is_def get_prop_nonnull)

lemma id_is_nonnull:
  "reg \<noteq> JNull \<Longrightarrow> id_is ident reg = Inr (id_is ident reg = Inr True)"
  by (simp add: id_is_def get_prop_nonnull)

lemma js_filter_total:
  "list_all (\<lambda>x. p x = Inr (q x)) xs \<Longrightarrow> js_filter p xs = Inr (filter q xs)"
  by (induction xs) simp_all

lemma js_findIndex_from_total:
  "list_all (\<lambda>x. p x = Inr (q x)) xs \<Longrightarrow>
   js_findIndex_from i p xs =
     Inr (if list_ex q xs then i + int (length (takeWhile (\<lambda>x. \<not> q x) xs)) else - 1)"
  by (induction xs arbitrary: i) simp_all

lemma list_all_weaken:
  "list_all P xs \<Longrightarrow> (\<And>x. P x \<Longrightarrow> Q x) \<Longrightarrow> list_all Q xs"
  by (induction xs) simp_all

lemma takeWhile_hit:
  "list_ex q xs \<Longrightarrow> length (takeWhile (\<lambda>x. \<not> q x) xs) < length xs \<and> q (xs ! length (takeWhile (\<lambda>x. \<not> q x) xs))"
  by (induction xs) auto

subsection \<open>Delete and update on a collection of records\<close>

lemma deleteRegistration_records:
  assumes "getAllRegistrations st = JArr regs"
    and "list_all (\<lambda>reg. reg \<noteq> JNull) regs"
  shows "deleteRegistration ident st =
           (if list_ex (\<lambda>reg. id_is ident reg = Inr True) regs
            then (True, st\<lparr>localStorage := Some (JSON_stringify (JArr
                    (filter (\<lambda>reg. id_is ident reg \<noteq> Inr True) regs)))\<rparr>)
            else (False, st))"
proof -
  have tot: "list_all (\<lambda>reg. id_is_not ident reg = Inr (id_is ident reg \<noteq> Inr True)) regs"
    using assms(2) by (rule list_all_weaken) (rule id_is_not_nonnull)
  have len: "(length regs = length (filter (\<lambda>reg. id_is ident reg \<noteq> Inr True) regs))
               = (\<not> list_ex (\<lambda>reg. id_is ident reg = Inr True) regs)"
  proof -
    have "length (filter (\<lambda>reg. id_is ident reg \<noteq> Inr True) regs)
            + length (filter (\<lambda>reg. \<not> id_is ident reg \<noteq> Inr True) regs) = length regs"
      by (rule sum_length_filter_compl)
    then have "(length regs = length (filter (\<lambda>reg. id_is ident reg \<noteq> Inr True) regs))
                = (filter (\<lambda>reg. id_is ident reg = Inr True) regs = [])"
      by auto
    then show ?thesis
      by (simp add: filter_empty_conv list_ex_iff)
  qed
  show ?thesis
    using len by (simp add: deleteRegistration_def assms(1) js_filter_total [OF tot])
qed

lemma updateRegistration_records:
  assumes "getAllRegistrations st = JArr regs"
    and "list_all (\<lambda>reg. reg \<noteq> JNull) regs"
  shows "updateRegistration stamp ident partialData st =
           (if list_ex (\<lambda>reg. id_is ident reg = Inr True) regs
            then (True, st\<lparr>localStorage := Some (JSON_stringify (JArr
                    (regs[length (takeWhile (\<lambda>reg. id_is ident reg \<noteq> Inr True) regs) :=
                       JObj (fmupd ''updatedAt'' (JStr stamp)
                         (own_props (regs ! length (takeWhile (\<lambda>reg. id_is ident reg \<noteq> Inr True) regs))
                            ++\<^sub>f own_props partialData))])))\<rparr>)
            else (False, st))"
proof -
  have tot: "list_all (\<lambda>reg. id_is ident reg = Inr (id_is ident reg = Inr True)) regs"
    using assms(2) by (rule list_all_weaken) (rule id_is_nonnull)
  show ?thesis
    by (simp add: updateRegistration_def assms(1) js_findIndex_def js_findIndex_from_total [OF tot] Let_def)
qed

subsection \<open>Deleting\<close>

text \<open>
  Claim C2, as amended: on a stored collection of records, if some record has the id then
  \<^verbatim>\<open>deleteRegistration(id)\<close> returns \<^verbatim>\<open>true\<close> and writes back the collection without
  every record that has the id, so that its length decreases by the number of records
  with that id (by exactly 1 when one record has it); if no record has the id it returns
  \<^verbatim>\<open>false\<close> and the store is not written.
\<close>

theorem delete_removes_matching:
  assumes "getAllRegistrations st = JArr regs"
    and "list_all (\<lambda>reg. reg \<noteq> JNull) regs"
  shows "deleteRegistration ident st =
           (if list_ex (\<lambda>reg. id_is ident reg = Inr True) regs
            then (True, st\<lparr>localStorage := Some (JSON_stringify (JArr
                    (filter (\<lambda>reg. id_is ident reg \<noteq> Inr True) regs)))\<rparr>)
            else (False, st))
         \<and> length (filter (\<lambda>reg. id_is ident reg \<noteq> Inr True) regs)
             = length regs - length (filter (\<lambda>reg. id_is ident reg = Inr True) regs)"
proof -
  have "length (filter (\<lambda>reg. id_is ident reg = Inr True) regs)
          + length (filter (\<lambda>reg. \<not> id_is ident reg = Inr True) regs) = length regs"
    by (rule sum_length_filter_compl)
  then have "length (filter (\<lambda>reg. id_is ident reg \<noteq> Inr True) regs)
             = length regs - length (filter (\<lambda>reg. id_is ident reg = Inr True) regs)"
    by simp
  with deleteRegistration_records [OF assms] show ?thesis
    by simp
qed

text \<open>The theorem on a collection of two records, for an id that is present and one that is not.\<close>

theorem delete_removes_matching_witness:
  "getAllRegistrations (store_of [JObj (fmupd ''id'' (JNum 1) fmempty), JObj (fmupd ''id'' (JNum 2) fmempty)])
     = JArr [JObj (fmupd ''id'' (JNum 1) fmempty), JObj (fmupd ''id'' (JNum 2) fmempty)]
   \<and> list_all (\<lambda>reg. reg \<noteq> JNull)
        [JObj (fmupd ''id'' (JNum 1) fmempty), JObj (fmupd ''id'' (JNum 2) fmempty)]
   \<and> deleteRegistration (Some (JNum 1)) (store_of [JObj (fmupd ''id'' (JNum 1) fmempty), JObj (fmupd ''id'' (JNum 2) fmempty)])
     = (True, (store_of [JObj (fmupd ''id'' (JNum 2) fmempty)]))
   \<and> deleteRegistration (Some (JNum 3)) (store_of [JObj (fmupd ''id'' (JNum 1) fmempty), JObj (fmupd ''id'' (JNum 2) fmempty)])
     = (False, (store_of [JObj (fmupd ''id'' (JNum 1) fmempty), JObj (fmupd ''id'' (JNum 2) fmempty)]))"
proof -
  let ?regs = "[JObj (fmupd ''id'' (JNum 1) fmempty), JObj (fmupd ''id'' (JNum 2) fmempty)]"
  let ?st = "(store_of ?regs)"
  have h1: "getAllRegistrations ?st = JArr ?regs"
    by (simp add: getAllRegistrations_def)
  have h2: "list_all (\<lambda>reg. reg \<noteq> JNull) ?regs"
    by simp
  from delete_removes_matching [OF h1 h2, of "Some (JNum 1)"]
       delete_removes_matching [OF h1 h2, of "Some (JNum 3)"] h1 h2
  show ?thesis
    by (simp add: id_is_def JSON_stringify_def)
qed

text \<open>
  The length does not always decrease by exactly 1: with two records of id 1 in the
  store, \<^verbatim>\<open>deleteRegistration(1)\<close> returns \<^verbatim>\<open>true\<close> and leaves the empty collection.
\<close>

theorem delete_exactly_one_counterexample:
  "getAllRegistrations (store_of
       [JObj (fmupd ''id'' (JNum 1) (fmupd ''name'' (JStr (units ''A'')) fmempty)),
        JObj (fmupd ''id'' (JNum 1) (fmupd ''name'' (JStr (units ''B'')) fmempty))])
     = JArr [JObj (fmupd ''id'' (JNum 1) (fmupd ''name'' (JStr (units ''A'')) fmempty)),
             JObj (fmupd ''id'' (JNum 1) (fmupd ''name'' (JStr (units ''B'')) fmempty))]
   \<and> fst (deleteRegistration (Some (JNum 1)) (store_of
       [JObj (fmupd ''id'' (JNum 1) (fmupd ''name'' (JStr (units ''A'')) fmempty)),
        JObj (fmupd ''id'' (JNum 1) (fmupd ''name'' (JStr (units ''B'')) fmempty))]))
   \<and> getAllRegistrations (snd (deleteRegistration (Some (JNum 1))
       (store_of
       [JObj (fmupd ''id'' (JNum 1) (fmupd ''name'' (JStr (units ''A'')) fmempty)),
        JObj (fmupd ''id'' (JNum 1) (fmupd ''name'' (JStr (units ''B'')) fmempty))])))
     = JArr []
   \<and> length ([] :: jv list)
       \<noteq> length [JObj (fmupd ''id'' (JNum 1) (fmupd ''name'' (JStr (units ''A'')) fmempty)),
                 JObj (fmupd ''id'' (JNum 1) (fmupd ''name'' (JStr (units ''B'')) fmempty))] - 1"
  by (simp add: deleteRegistration_def getAllRegistrations_def id_is_not_def JSON_stringify_def)

subsection \<open>Updating\<close>

text \<open>
  Claim C3: on a stored collection of records in which some record has the id,
  \<^verbatim>\<open>updateRegistration(id, partialData)\<close> returns \<^verbatim>\<open>true\<close> and writes back the collection
  with the first such record, at position \<open>i\<close>, replaced by \<open>merged\<close>: its
  \<^verbatim>\<open>updatedAt\<close> is the current time, every other field that \<open>partialData\<close> has takes the
  value given there, every field that \<open>partialData\<close> lacks keeps its value, and the
  records at all other positions are the same as before. If no record has the id, the
  call returns \<^verbatim>\<open>false\<close> and the state is unchanged.
\<close>

theorem update_merges:
  assumes "getAllRegistrations st = JArr regs"
    and "list_all (\<lambda>reg. reg \<noteq> JNull) regs"
    and "i = length (takeWhile (\<lambda>reg. id_is ident reg \<noteq> Inr True) regs)"
    and "merged = fmupd ''updatedAt'' (JStr stamp) (own_props (regs ! i) ++\<^sub>f own_props partialData)"
  shows "(list_ex (\<lambda>reg. id_is ident reg = Inr True) regs \<longrightarrow>
            i < length regs \<and> id_is ident (regs ! i) = Inr True
            \<and> updateRegistration stamp ident partialData st
                = (True, st\<lparr>localStorage := Some (JSON_stringify (JArr (regs[i := JObj merged])))\<rparr>)
            \<and> (\<forall>k. fmlookup merged k =
                     (if k = ''updatedAt'' then Some (JStr stamp)
                      else case fmlookup (own_props partialData) k of
                             Some v \<Rightarrow> Some v
                           | None \<Rightarrow> fmlookup (own_props (regs ! i)) k))
            \<and> (\<forall>j. j \<noteq> i \<longrightarrow> (regs[i := JObj merged]) ! j = regs ! j)
            \<and> length (regs[i := JObj merged]) = length regs)
         \<and> (\<not> list_ex (\<lambda>reg. id_is ident reg = Inr True) regs \<longrightarrow>
              updateRegistration stamp ident partialData st = (False, st))"
proof -
  have fields: "\<forall>k. fmlookup merged k =
                     (if k = ''updatedAt'' then Some (JStr stamp)
                      else case fmlookup (own_props partialData) k of
                             Some v \<Rightarrow> Some v
                           | None \<Rightarrow> fmlookup (own_props (regs ! i)) k)"
    unfolding assms(4) by (auto simp: fmlookup_dom_iff split: option.splits)
  have hit: "list_ex (\<lambda>reg. id_is ident reg = Inr True) regs \<Longrightarrow>
             i < length regs \<and> id_is ident (regs ! i) = Inr True"
    unfolding assms(3) using takeWhile_hit [of "\<lambda>reg. id_is ident reg = Inr True" regs] by simp
  show ?thesis
    using updateRegistration_records [OF assms(1,2), of stamp ident partialData] fields hit
    by (simp add: assms(3,4))
qed

text \<open>The theorem on a collection of two records, for an id that is present and one that is not.\<close>

theorem update_merges_witness:
  "getAllRegistrations (store_of
       [JObj (fmupd ''id'' (JNum 1) fmempty),
        JObj (fmupd ''id'' (JNum 2) (fmupd ''city'' (JStr (units ''Pune'')) fmempty))])
     = JArr [JObj (fmupd ''id'' (JNum 1) fmempty),
             JObj (fmupd ''id'' (JNum 2) (fmupd ''city'' (JStr (units ''Pune'')) fmempty))]
   \<and> list_all (\<lambda>reg. reg \<noteq> JNull)
        [JObj (fmupd ''id'' (JNum 1) fmempty),
         JObj (fmupd ''id'' (JNum 2) (fmupd ''city'' (JStr (units ''Pune'')) fmempty))]
   \<and> (1::nat) = length (takeWhile (\<lambda>reg. id_is (Some (JNum 2)) reg \<noteq> Inr True)
        [JObj (fmupd ''id'' (JNum 1) fmempty),
         JObj (fmupd ''id'' (JNum 2) (fmupd ''city'' (JStr (units ''Pune'')) fmempty))])
   \<and> list_ex (\<lambda>reg. id_is (Some (JNum 2)) reg = Inr True)
        [JObj (fmupd ''id'' (JNum 1) fmempty),
         JObj (fmupd ''id'' (JNum 2) (fmupd ''city'' (JStr (units ''Pune'')) fmempty))]
   \<and> updateRegistration (units ''T'') (Some (JNum 2)) (JObj (fmupd ''state'' (JStr (units ''MH'')) fmempty))
        (store_of
       [JObj (fmupd ''id'' (JNum 1) fmempty),
           JObj (fmupd ''id'' (JNum 2) (fmupd ''city'' (JStr (units ''Pune'')) fmempty))])
     = (True, (store_of
       [JObj (fmupd ''id'' (JNum 1) fmempty),
           JObj (fmupd ''updatedAt'' (JStr (units ''T''))
             (fmupd ''state'' (JStr (units ''MH''))
             (fmupd ''id'' (JNum 2) (fmupd ''city'' (JStr (units ''Pune'')) fmempty))))]))
   \<and> \<not> list_ex (\<lambda>reg. id_is (Some (JNum 3)) reg = Inr True)
        [JObj (fmupd ''id'' (JNum 1) fmempty),
         JObj (fmupd ''id'' (JNum 2) (fmupd ''city'' (JStr (units ''Pune'')) fmempty))]
   \<and> updateRegistration (units ''T'') (Some (JNum 3)) (JObj (fmupd ''state'' (JStr (units ''MH'')) fmempty))
        (store_of
       [JObj (fmupd ''id'' (JNum 1) fmempty),
           JObj (fmupd ''id'' (JNum 2) (fmupd ''city'' (JStr (units ''Pune'')) fmempty))])
     = (False, (store_of
       [JObj (fmupd ''id'' (JNum 1) fmempty),
           JObj (fmupd ''id'' (JNum 2) (fmupd ''city'' (JStr (units ''Pune'')) fmempty))]))"
proof -
  let ?regs = "[JObj (fmupd ''id'' (JNum 1) fmempty),
                JObj (fmupd ''id'' (JNum 2) (fmupd ''city'' (JStr (units ''Pune'')) fmempty))]"
  let ?st = "(store_of ?regs)"
  have h1: "getAllRegistrations ?st = JArr ?regs"
    by (simp add: getAllRegistrations_def)
  have h2: "list_all (\<lambda>reg. reg \<noteq> JNull) ?regs"
    by simp
  have h3: "(1::nat) = length (takeWhile (\<lambda>reg. id_is (Some (JNum 2)) reg \<noteq> Inr True) ?regs)"
    by (simp add: id_is_def)
  have h4: "list_ex (\<lambda>reg. id_is (Some (JNum 2)) reg = Inr True) ?regs"
    by (simp add: id_is_def)
  have h5: "\<not> list_ex (\<lambda>reg. id_is (Some (JNum 3)) reg = Inr True) ?regs"
    by (simp add: id_is_def)
  from update_merges [where stamp = "units ''T''" and partialData = "JObj (fmupd ''state'' (JStr (units ''MH'')) fmempty)",
         OF h1 h2 h3 refl] h4
  have "updateRegistration (units ''T'') (Some (JNum 2)) (JObj (fmupd ''state'' (JStr (units ''MH'')) fmempty)) ?st
     = (True, ?st\<lparr>localStorage := Some (JSON_stringify (JArr (?regs[1 := JObj
          (fmupd ''updatedAt'' (JStr (units ''T''))
             (own_props (?regs ! 1) ++\<^sub>f own_props (JObj (fmupd ''state'' (JStr (units ''MH'')) fmempty))))])))\<rparr>)"
    by blast
  then have yes: "updateRegistration (units ''T'') (Some (JNum 2)) (JObj (fmupd ''state'' (JStr (units ''MH'')) fmempty)) ?st
     = (True, (store_of
       [JObj (fmupd ''id'' (JNum 1) fmempty),
           JObj (fmupd ''updatedAt'' (JStr (units ''T''))
             (fmupd ''state'' (JStr (units ''MH''))
             (fmupd ''id'' (JNum 2) (fmupd ''city'' (JStr (units ''Pune'')) fmempty))))]))"
    by (simp add: JSON_stringify_def)
  from update_merges [where stamp = "units ''T''" and partialData = "JObj (fmupd ''state'' (JStr (units ''MH'')) fmempty)"
         and ident = "Some (JNum 3)", OF h1 h2 refl refl] h5
  have no: "updateRegistration (units ''T'') (Some (JNum 3)) (JObj (fmupd ''state'' (JStr (units ''MH'')) fmempty)) ?st
     = (False, ?st)"
    by blast
  from h1 h2 h3 h4 h5 yes no show ?thesis
    by simp
qed

subsection \<open>Importing\<close>

text \<open>The name of an array index consists of digits, so it is none of the names the code reads.\<close>

lemma nat_digits_digits: "set (nat_digits n) \<subseteq> set ''0123456789''"
proof (induction n rule: nat_digits.induct)
  case (1 n)
  have d: "\<And>m. m < 10 \<Longrightarrow> ''0123456789'' ! m \<in> set ''0123456789''"
    by (rule nth_mem) simp
  show ?case
  proof (cases "n < 10")
    case True
    then show ?thesis
      using d [of n] by (subst nat_digits.simps) simp
  next
    case False
    have "n mod 10 < 10" by simp
    then have "''0123456789'' ! (n mod 10) \<in> set ''0123456789''"
      by (rule d)
    with False 1 show ?thesis
      by (subst nat_digits.simps) simp
  qed
qed

lemma index_key_lookup:
  assumes "\<not> set k \<subseteq> set ''0123456789''"
  shows "map_of (zip (map nat_digits [0..<n]) vs) k = None"
proof -
  have "k \<notin> set (map nat_digits [0..<n])"
    using assms nat_digits_digits by auto
  then have "k \<notin> fst ` set (zip (map nat_digits [0..<n]) vs)"
    by (metis (no_types, lifting) image_iff in_set_zipE prod.collapse)
  then show ?thesis
    by (simp add: map_of_eq_None_iff)
qed

lemma get_prop_JStr_registrations:
  "get_prop (JStr s) ''registrations'' = Inr None"
proof -
  have "map_of (zip (map nat_digits [0..<length s]) (map (\<lambda>c. JStr [c]) s)) ''registrations'' = None"
    by (rule index_key_lookup) simp
  then have "fmlookup (own_props (JStr s)) ''registrations'' = None"
    by (simp only: own_props.simps fmlookup_of_list)
  then show ?thesis
    by (simp del: own_props.simps)
qed

lemma registrationsToImport_cases:
  "registrationsToImport data =
     (case data of
        JArr rs \<Rightarrow> Inr rs
      | JObj m \<Rightarrow> (case fmlookup m ''registrations'' of
                    Some (JArr rs) \<Rightarrow> Inr rs
                  | _ \<Rightarrow> Inl InvalidFormat)
      | JNull \<Rightarrow> Inl TypeError
      | _ \<Rightarrow> Inl InvalidFormat)"
proof (cases data)
  case (JStr s)
  then show ?thesis
    by (simp add: registrationsToImport_def get_prop_JStr_registrations del: get_prop.simps)
next
  case (JObj m)
  then show ?thesis
    by (auto simp: registrationsToImport_def split: option.splits jv.splits)
qed (simp_all add: registrationsToImport_def)

lemma importFromJSON_array:
  assumes "getAllRegistrations st = JArr regs"
  shows "importFromJSON ticks file st =
     (case bind_e (JSON_parse file) registrationsToImport of
        Inl e \<Rightarrow> (False, st)
      | Inr rs \<Rightarrow> (True, st\<lparr>localStorage := Some (JSON_stringify (JArr
                     (regs @ map (\<lambda>(i, reg). stamp_imported (ticks i) reg) (enumerate 0 rs))))\<rparr>))"
  by (cases "JSON_parse file"; cases "registrationsToImport (projr (JSON_parse file))")
     (simp_all add: importFromJSON_def assms)

text \<open>The rounding to a double, evaluated.\<close>

lemma bit_length_numeral:
  "bit_length 0 = 0"
  "bit_length (Suc 0) = Suc 0"
  "bit_length 1 = 1"
  "bit_length (numeral k) = Suc (bit_length (numeral k div 2))"
  by (simp_all add: bit_length.simps)

lemma floor_rat_numeral:
  "\<lfloor>(numeral a :: rat) / numeral b\<rfloor> = numeral a div numeral b"
  "\<lfloor>- ((numeral a :: rat) / numeral b)\<rfloor> = - numeral a div numeral b"
  "\<lceil>(numeral a :: rat) / numeral b\<rceil> = - (- numeral a div numeral b)"
  using floor_divide_of_int_eq [of "numeral a" "numeral b", where ?'a = rat]
    floor_divide_of_int_eq [of "- numeral a" "numeral b", where ?'a = rat]
  by (simp_all add: ceiling_def)

lemmas to_double_eval = to_double_def binary_exponent_def round_half_even_def
  scale2_def Let_def bit_length_numeral floor_rat_numeral

text \<open>
  One tenth is not a double; \<open>2 ^ 53 + 1\<close> and \<open>- (2 ^ 53 + 3)\<close> lie half way between two
  doubles; near the clock readings of today the doubles are \<open>1 / 2 ^ 12\<close> apart.
\<close>

lemma to_double_examples:
  "to_double (1 / 10) = 3602879701896397 / 36028797018963968"
  "to_double 9007199254740993 = 9007199254740992"
  "to_double (- 9007199254740995) = - 9007199254740996"
  "to_double (1700000000000 + 3 / 8) = 1700000000000 + 3 / 8"
  "to_double (1700000000000 + 1 / 2 ^ 20) = 1700000000000"
  "to_double (1700000000000 + 1 / 2 ^ 13) = 1700000000000"
  "to_double (1700000000000 + 3 / 2 ^ 13) = 1700000000000 + 1 / 2 ^ 11"
  by (simp_all add: to_double_eval)

text \<open>
  Claim C6: with a stored collection \<open>regs\<close>, if the file contents parse to an array, or
  to an object whose \<^verbatim>\<open>registrations\<close> property is an array, \<^verbatim>\<open>importFromJSON\<close> returns
  \<^verbatim>\<open>true\<close> and writes back \<open>regs\<close> followed by the records of that array, each with
  \<^verbatim>\<open>id\<close> set to the double that the clock reading plus the random fraction yields and
  \<^verbatim>\<open>importedAt\<close> set to the current time, its other fields kept. For any other contents
  (text that does not parse, or a value of another shape) it returns \<^verbatim>\<open>false\<close> and the
  state is unchanged.
\<close>

theorem import_appends_or_fails:
  assumes "getAllRegistrations st = JArr regs"
  shows "importFromJSON ticks file st =
     (case file of
        Parses (JArr rs) \<Rightarrow>
          (True, st\<lparr>localStorage := Some (JSON_stringify (JArr
                     (regs @ map (\<lambda>(i, reg). stamp_imported (ticks i) reg) (enumerate 0 rs))))\<rparr>)
      | Parses (JObj m) \<Rightarrow>
          (case fmlookup m ''registrations'' of
             Some (JArr rs) \<Rightarrow>
               (True, st\<lparr>localStorage := Some (JSON_stringify (JArr
                     (regs @ map (\<lambda>(i, reg). stamp_imported (ticks i) reg) (enumerate 0 rs))))\<rparr>)
           | _ \<Rightarrow> (False, st))
      | _ \<Rightarrow> (False, st))
    \<and> (\<forall>t reg k. fmlookup (own_props (stamp_imported t reg)) k =
          (if k = ''importedAt'' then Some (JStr (iso_string t))
           else if k = ''id'' then Some (JNum (to_double (of_int (date_now t) + math_random t)))
           else fmlookup (own_props reg) k))"
proof -
  have "\<forall>t reg k. fmlookup (own_props (stamp_imported t reg)) k =
          (if k = ''importedAt'' then Some (JStr (iso_string t))
           else if k = ''id'' then Some (JNum (to_double (of_int (date_now t) + math_random t)))
           else fmlookup (own_props reg) k)"
    by (auto simp: stamp_imported_def)
  moreover have "importFromJSON ticks file st =
     (case file of
        Parses (JArr rs) \<Rightarrow>
          (True, st\<lparr>localStorage := Some (JSON_stringify (JArr
                     (regs @ map (\<lambda>(i, reg). stamp_imported (ticks i) reg) (enumerate 0 rs))))\<rparr>)
      | Parses (JObj m) \<Rightarrow>
          (case fmlookup m ''registrations'' of
             Some (JArr rs) \<Rightarrow>
               (True, st\<lparr>localStorage := Some (JSON_stringify (JArr
                     (regs @ map (\<lambda>(i, reg). stamp_imported (ticks i) reg) (enumerate 0 rs))))\<rparr>)
           | _ \<Rightarrow> (False, st))
      | _ \<Rightarrow> (False, st))"
    unfolding importFromJSON_array [OF assms]
    by (simp add: registrationsToImport_cases split: raw_text.splits jv.splits option.splits)
  ultimately show ?thesis
    by blast
qed

text \<open>
  The theorem on a collection of two records: the import of
  \<^verbatim>\<open>{"registrations":[{"name":"Bob"},{"name":"Cy"}]}\<close> at the clock reading
  1700000000000, with the random fractions \<open>1 / 2 ^ 20\<close> and \<open>3 / 8\<close>, gives four
  records, the first fraction being lost in the sum; and a file that does not parse leaves
  the store as it was.
\<close>

theorem import_appends_or_fails_witness:
  "getAllRegistrations (store_of [JObj (fmupd ''id'' (JNum 1) fmempty), JObj (fmupd ''id'' (JNum 2) fmempty)])
     = JArr [JObj (fmupd ''id'' (JNum 1) fmempty), JObj (fmupd ''id'' (JNum 2) fmempty)]
   \<and> importFromJSON
        (\<lambda>i. \<lparr>date_now = 1700000000000, math_random = (if i = 0 then 1 / 2 ^ 20 else 3 / 8),
                iso_string = units ''T''\<rparr>)
        (Parses (JObj (fmupd ''registrations''
           (JArr [JObj (fmupd ''name'' (JStr (units ''Bob'')) fmempty),
                  JObj (fmupd ''name'' (JStr (units ''Cy'')) fmempty)]) fmempty)))
        (store_of [JObj (fmupd ''id'' (JNum 1) fmempty), JObj (fmupd ''id'' (JNum 2) fmempty)])
     = (True, (store_of
       [JObj (fmupd ''id'' (JNum 1) fmempty), JObj (fmupd ''id'' (JNum 2) fmempty),
           JObj (fmupd ''importedAt'' (JStr (units ''T'')) (fmupd ''id'' (JNum 1700000000000)
             (fmupd ''name'' (JStr (units ''Bob'')) fmempty))),
           JObj (fmupd ''importedAt'' (JStr (units ''T'')) (fmupd ''id'' (JNum (1700000000000 + 3 / 8))
             (fmupd ''name'' (JStr (units ''Cy'')) fmempty)))]))
   \<and> importFromJSON
        (\<lambda>i. \<lparr>date_now = 1700000000000, math_random = (if i = 0 then 1 / 2 ^ 20 else 3 / 8),
                iso_string = units ''T''\<rparr>)
        Unparsable
        (store_of [JObj (fmupd ''id'' (JNum 1) fmempty), JObj (fmupd ''id'' (JNum 2) fmempty)])
     = (False, (store_of [JObj (fmupd ''id'' (JNum 1) fmempty), JObj (fmupd ''id'' (JNum 2) fmempty)]))"
proof -
  let ?regs = "[JObj (fmupd ''id'' (JNum 1) fmempty), JObj (fmupd ''id'' (JNum 2) fmempty)]"
  let ?st = "(store_of ?regs)"
  let ?ticks = "\<lambda>i::nat. \<lparr>date_now = 1700000000000,
                  math_random = (if i = 0 then 1 / 2 ^ 20 else 3 / 8), iso_string = units ''T''\<rparr>"
  have h: "getAllRegistrations ?st = JArr ?regs"
    by (simp add: getAllRegistrations_def)
  have d0: "to_double (1782579200000000001 / 1048576) = 1700000000000"
    by (simp add: to_double_eval)
  have d1: "to_double (13600000000003 / 8) = 13600000000003 / 8"
    by (simp add: to_double_eval)
  from import_appends_or_fails [OF h, of ?ticks
         "Parses (JObj (fmupd ''registrations''
           (JArr [JObj (fmupd ''name'' (JStr (units ''Bob'')) fmempty),
                  JObj (fmupd ''name'' (JStr (units ''Cy'')) fmempty)]) fmempty))"]
       import_appends_or_fails [OF h, of ?ticks Unparsable] h
  show ?thesis
    by (simp add: JSON_stringify_def stamp_imported_def enumerate_eq_zip d0 d1)
qed

subsection \<open>The field submittedAt\<close>

text \<open>
  Claim C4, as amended: on a stored collection of records, \<^verbatim>\<open>updateRegistration\<close> with a
  \<open>partialData\<close> that has no \<^verbatim>\<open>submittedAt\<close> property leaves the \<^verbatim>\<open>submittedAt\<close> of
  every record as it was; \<^verbatim>\<open>saveToJSON\<close> and \<^verbatim>\<open>importFromJSON\<close> only append to the
  collection, \<^verbatim>\<open>deleteRegistration\<close> only removes records from it and
  \<^verbatim>\<open>clearAllRegistrations\<close> removes them all or none, so the records that stay are
  unchanged.
\<close>

theorem submittedAt_kept:
  assumes "getAllRegistrations st = JArr regs"
    and "list_all (\<lambda>reg. reg \<noteq> JNull) regs"
  shows "(fmlookup (own_props partialData) ''submittedAt'' = None \<longrightarrow>
           (\<exists>regs'. getAllRegistrations (snd (updateRegistration stamp ident partialData st)) = JArr regs'
                \<and> map (\<lambda>reg. get_prop reg ''submittedAt'') regs'
                    = map (\<lambda>reg. get_prop reg ''submittedAt'') regs))
       \<and> (\<exists>new. getAllRegistrations (snd (saveToJSON now stamp data st)) = JArr (regs @ [new]))
       \<and> getAllRegistrations (snd (deleteRegistration ident st))
           = JArr (filter (\<lambda>reg. id_is ident reg \<noteq> Inr True) regs)
       \<and> (\<exists>imported. getAllRegistrations (snd (importFromJSON ticks file st)) = JArr (regs @ imported))
       \<and> getAllRegistrations (snd (clearAllRegistrations confirmed st))
           = (if confirmed then JArr [] else JArr regs)"
proof -
  let ?sub = "\<lambda>reg. get_prop reg ''submittedAt''"
  let ?hit = "\<lambda>reg. id_is ident reg = Inr True"
  let ?i = "length (takeWhile (\<lambda>reg. id_is ident reg \<noteq> Inr True) regs)"
  let ?merged = "JObj (fmupd ''updatedAt'' (JStr stamp) (own_props (regs ! ?i) ++\<^sub>f own_props partialData))"
  have upd: "\<exists>regs'. getAllRegistrations (snd (updateRegistration stamp ident partialData st)) = JArr regs'
                \<and> map ?sub regs' = map ?sub regs"
    if none: "fmlookup (own_props partialData) ''submittedAt'' = None"
  proof (cases "list_ex ?hit regs")
    case False
    then show ?thesis
      using updateRegistration_records [OF assms, of stamp ident partialData] assms(1) by simp
  next
    case True
    then have i: "?i < length regs"
      using takeWhile_hit [of ?hit regs] by simp
    with assms(2) have "regs ! ?i \<noteq> JNull"
      by (simp add: list_all_length)
    then have old: "?sub (regs ! ?i) = Inr (fmlookup (own_props (regs ! ?i)) ''submittedAt'')"
      by (simp add: get_prop_nonnull)
    have "?sub ?merged = Inr (fmlookup (own_props (regs ! ?i)) ''submittedAt'')"
      using none by (simp add: fmlookup_dom_iff)
    with old have "?sub ?merged = map ?sub regs ! ?i"
      using i by simp
    then have "map ?sub (regs[?i := ?merged]) = map ?sub regs"
      by (simp add: map_update del: get_prop.simps)
    with True show ?thesis
      using updateRegistration_records [OF assms, of stamp ident partialData] by simp
  qed
  have sav: "\<exists>new. getAllRegistrations (snd (saveToJSON now stamp data st)) = JArr (regs @ [new])"
    by (simp add: saveToJSON_array [OF assms(1)])
  have del: "getAllRegistrations (snd (deleteRegistration ident st))
           = JArr (filter (\<lambda>reg. id_is ident reg \<noteq> Inr True) regs)"
  proof (cases "list_ex ?hit regs")
    case True
    then show ?thesis
      using deleteRegistration_records [OF assms, of ident] by simp
  next
    case False
    then have "filter (\<lambda>reg. id_is ident reg \<noteq> Inr True) regs = regs"
      by (simp add: list_ex_iff filter_id_conv)
    with False show ?thesis
      using deleteRegistration_records [OF assms, of ident] assms(1) by simp
  qed
  have imp: "\<exists>imported. getAllRegistrations (snd (importFromJSON ticks file st)) = JArr (regs @ imported)"
    using assms(1) by (simp add: importFromJSON_array [OF assms(1)] split: sum.splits)
  have clr: "getAllRegistrations (snd (clearAllRegistrations confirmed st))
           = (if confirmed then JArr [] else JArr regs)"
    using assms(1) by (simp add: clearAllRegistrations_def getAllRegistrations_def)
  from upd sav del imp clr show ?thesis
    by blast
qed

text \<open>The theorem on a collection of one record, updated with a new city.\<close>

theorem submittedAt_kept_witness:
  "getAllRegistrations (store_of [JObj (fmupd ''submittedAt'' (JStr (units ''A'')) (fmupd ''id'' (JNum 1) fmempty))])
     = JArr [JObj (fmupd ''submittedAt'' (JStr (units ''A'')) (fmupd ''id'' (JNum 1) fmempty))]
   \<and> list_all (\<lambda>reg. reg \<noteq> JNull)
        [JObj (fmupd ''submittedAt'' (JStr (units ''A'')) (fmupd ''id'' (JNum 1) fmempty))]
   \<and> fmlookup (own_props (JObj (fmupd ''city'' (JStr (units ''Pune'')) fmempty))) ''submittedAt'' = None
   \<and> (\<exists>regs'. getAllRegistrations (snd (updateRegistration (units ''T'') (Some (JNum 1))
          (JObj (fmupd ''city'' (JStr (units ''Pune'')) fmempty))
          (store_of [JObj (fmupd ''submittedAt'' (JStr (units ''A'')) (fmupd ''id'' (JNum 1) fmempty))]))) = JArr regs'
        \<and> map (\<lambda>reg. get_prop reg ''submittedAt'') regs' = [Inr (Some (JStr (units ''A'')))])"
proof -
  let ?regs = "[JObj (fmupd ''submittedAt'' (JStr (units ''A'')) (fmupd ''id'' (JNum 1) fmempty))]"
  let ?st = "(store_of ?regs)"
  have h1: "getAllRegistrations ?st = JArr ?regs"
    by (simp add: getAllRegistrations_def)
  have h2: "list_all (\<lambda>reg. reg \<noteq> JNull) ?regs"
    by simp
  have h3: "fmlookup (own_props (JObj (fmupd ''city'' (JStr (units ''Pune'')) fmempty))) ''submittedAt'' = None"
    by simp
  from submittedAt_kept [OF h1 h2, where partialData = "JObj (fmupd ''city'' (JStr (units ''Pune'')) fmempty)"
         and stamp = "units ''T''" and ident = "Some (JNum 1)"] h3
  have "\<exists>regs'. getAllRegistrations (snd (updateRegistration (units ''T'') (Some (JNum 1))
          (JObj (fmupd ''city'' (JStr (units ''Pune'')) fmempty)) ?st)) = JArr regs'
        \<and> map (\<lambda>reg. get_prop reg ''submittedAt'') regs' = map (\<lambda>reg. get_prop reg ''submittedAt'') ?regs"
    by blast
  with h1 h2 h3 show ?thesis
    by simp
qed

text \<open>
  The field is not immutable: an update whose \<open>partialData\<close> carries \<^verbatim>\<open>submittedAt\<close>
  overwrites the stored value.
\<close>

theorem submittedAt_overwritten_counterexample:
  "getAllRegistrations (store_of [JObj (fmupd ''submittedAt'' (JStr (units ''2024-01-01T00:00:00.000Z'')) (fmupd ''id'' (JNum 1) fmempty))])
     = JArr [JObj (fmupd ''submittedAt'' (JStr (units ''2024-01-01T00:00:00.000Z'')) (fmupd ''id'' (JNum 1) fmempty))]
   \<and> updateRegistration (units ''2024-06-01T00:00:00.000Z'') (Some (JNum 1))
        (JObj (fmupd ''submittedAt'' (JStr (units ''1999-12-31T00:00:00.000Z'')) fmempty))
        (store_of [JObj (fmupd ''submittedAt'' (JStr (units ''2024-01-01T00:00:00.000Z'')) (fmupd ''id'' (JNum 1) fmempty))])
     = (True, (store_of
       [JObj (fmupd ''updatedAt'' (JStr (units ''2024-06-01T00:00:00.000Z''))
             (fmupd ''submittedAt'' (JStr (units ''1999-12-31T00:00:00.000Z'')) (fmupd ''id'' (JNum 1) fmempty)))]))
   \<and> get_prop (JObj (fmupd ''updatedAt'' (JStr (units ''2024-06-01T00:00:00.000Z''))
             (fmupd ''submittedAt'' (JStr (units ''1999-12-31T00:00:00.000Z'')) (fmupd ''id'' (JNum 1) fmempty))))
         ''submittedAt''
       \<noteq> get_prop (JObj (fmupd ''submittedAt'' (JStr (units ''2024-01-01T00:00:00.000Z'')) (fmupd ''id'' (JNum 1) fmempty)))
         ''submittedAt''"
  by (simp add: updateRegistration_def getAllRegistrations_def js_findIndex_def id_is_def
        JSON_stringify_def)

subsection \<open>Validation\<close>

lemma js_map_Inr:
  "js_map g xs = Inr ys \<Longrightarrow> list_all2 (\<lambda>x y. g x = Inr y) xs ys"
proof (induction xs arbitrary: ys)
  case Nil
  then show ?case by (simp add: js_map_def)
next
  case (Cons x xs)
  then show ?case
    by (cases "g x"; cases "collect (map g xs)") (auto simp: js_map_def)
qed

lemma js_map_total:
  "list_all (\<lambda>x. g x = Inr (h x)) xs \<Longrightarrow> js_map g xs = Inr (map h xs)"
  by (induction xs) (simp_all add: js_map_def)

lemma required_error_result:
  "required_error fmt data f = Inr y \<Longrightarrow> y = [] \<or> y = [units (f @ '' is required'')]"
  by (auto simp: required_error_def bind_e_def split: sum.splits if_splits)

lemma multi_error_result:
  "multi_error data f msg = Inr y \<Longrightarrow> y = [] \<or> y = [msg]"
  by (auto simp: multi_error_def bind_e_def split: sum.splits if_splits option.splits)

lemma postal_error_result:
  "postal_error fmt data = Inr y \<Longrightarrow> y = [] \<or> y = [(units ''Postal code must be 6 digits'')]"
  by (auto simp: postal_error_def bind_e_def split: sum.splits if_splits)

lemma validateData_Inr:
  assumes "validateData fmt data = Inr v"
  shows "\<exists>req e1 e2 e3 e4 e5.
           js_map (required_error fmt data) requiredFields = Inr req
         \<and> multi_error data ''cityMulti'' (units ''At least one city must be selected'') = Inr e1
         \<and> multi_error data ''pinCode'' (units ''At least one pin code must be selected'') = Inr e2
         \<and> multi_error data ''areaMulti'' (units ''At least one area must be selected'') = Inr e3
         \<and> multi_error data ''languages'' (units ''At least one language must be selected'') = Inr e4
         \<and> postal_error fmt data = Inr e5
         \<and> errors v = concat req @ e1 @ e2 @ e3 @ e4 @ e5
         \<and> valid v = (errors v = [])"
  using assms
  by (auto simp: validateData_def bind_e_def Let_def split: sum.splits)

lemma validateData_empty:
  "validateData fmt (JObj fmempty) =
     Inr \<lparr>valid = False,
          errors = [(units ''name is required''), (units ''address1 is required''), (units ''city is required''),
                    (units ''state is required''), (units ''postalCode is required''), (units ''dob is required''),
                    (units ''gender is required''), (units ''status is required''),
                    (units ''onboardingDate is required''), (units ''type is required''),
                    (units ''At least one city must be selected''),
                    (units ''At least one pin code must be selected''),
                    (units ''At least one area must be selected''),
                    (units ''At least one language must be selected'')]\<rparr>"
  by (simp add: validateData_def required_error_def multi_error_def postal_error_def
        requiredFields_def js_map_def)

text \<open>
  What the checks say of the values a form holds: a required field fails when it is
  absent or its string is blank, a multi-select field fails when it is absent or its
  array is empty, and the postal code fails when its string is not empty and is not six
  digits. A form with every field filled in is valid.
\<close>

lemma dropWhile_all:
  "list_all P (dropWhile P s) = list_all P s"
  by (induction s) auto

lemma trim_blank: "(trim s = []) = list_all is_space s"
proof -
  have "(trim s = []) = list_all is_space (rev (dropWhile is_space s))"
    by (simp add: trim_def dropWhile_eq_Nil_conv list_all_iff)
  also have "\<dots> = list_all is_space (dropWhile is_space s)"
    by (simp add: list_all_iff)
  also have "\<dots> = list_all is_space s"
    by (rule dropWhile_all)
  finally show ?thesis .
qed

lemma required_error_string:
  "fmlookup m f = Some (JStr s) \<Longrightarrow>
   required_error fmt (JObj m) f = Inr (if list_all is_space s then [units (f @ '' is required'')] else [])"
  by (cases s) (simp_all add: required_error_def trim_blank)

lemma required_error_absent:
  "fmlookup m f = None \<Longrightarrow> required_error fmt (JObj m) f = Inr [units (f @ '' is required'')]"
  by (simp add: required_error_def)

lemma multi_error_array:
  "fmlookup m f = Some (JArr xs) \<Longrightarrow>
   multi_error (JObj m) f msg = Inr (if xs = [] then [msg] else [])"
  by (simp add: multi_error_def)

lemma multi_error_absent:
  "fmlookup m f = None \<Longrightarrow> multi_error (JObj m) f msg = Inr [msg]"
  by (simp add: multi_error_def)

lemma postal_error_string:
  "fmlookup m ''postalCode'' = Some (JStr s) \<Longrightarrow>
   postal_error fmt (JObj m) =
     Inr (if s \<noteq> [] \<and> \<not> six_digits s then [(units ''Postal code must be 6 digits'')] else [])"
  by (simp add: postal_error_def)

lemma validateData_complete_form:
  "validateData fmt
     (JObj (fmupd ''name'' (JStr (units ''Alice'')) (fmupd ''address1'' (JStr (units ''12 MG Road''))
           (fmupd ''city'' (JStr (units ''Bengaluru'')) (fmupd ''state'' (JStr (units ''KA''))
           (fmupd ''postalCode'' (JStr (units ''560001'')) (fmupd ''dob'' (JStr (units ''1990-05-17''))
           (fmupd ''gender'' (JStr (units ''F'')) (fmupd ''status'' (JStr (units ''Active''))
           (fmupd ''onboardingDate'' (JStr (units ''2024-01-15'')) (fmupd ''type'' (JStr (units ''Individual''))
           (fmupd ''cityMulti'' (JArr [JStr (units ''A'')]) (fmupd ''pinCode'' (JArr [JStr (units ''560001'')])
           (fmupd ''areaMulti'' (JArr [JStr (units ''X'')]) (fmupd ''languages'' (JArr [JStr (units ''en'')])
           fmempty)))))))))))))))
   = Inr \<lparr>valid = True, errors = []\<rparr>"
  by (simp add: validateData_def required_error_def multi_error_def postal_error_def
        requiredFields_def js_map_def trim_def is_space_def six_digits_def is_digit_def units_def)

lemma required_errors_set:
  assumes "js_map (required_error fmt data) names = Inr req"
  shows "(msg \<in> set (concat req)) =
           (\<exists>f \<in> set names. msg = units (f @ '' is required'') \<and> required_error fmt data f = Inr [msg])"
proof -
  have all2: "list_all2 (\<lambda>f y. required_error fmt data f = Inr y) names req"
    using assms by (rule js_map_Inr)
  show ?thesis
  proof
    assume "msg \<in> set (concat req)"
    then obtain y where y: "y \<in> set req" "msg \<in> set y"
      by auto
    then obtain j where j: "j < length req" "req ! j = y"
      by (auto simp: in_set_conv_nth)
    with all2 have f: "names ! j \<in> set names" "required_error fmt data (names ! j) = Inr y"
      by (auto simp: list_all2_conv_all_nth)
    from required_error_result [OF f(2)] y(2) have "y = [units (names ! j @ '' is required'')]"
      by auto
    with y(2) f show "\<exists>f \<in> set names. msg = units (f @ '' is required'') \<and> required_error fmt data f = Inr [msg]"
      by auto
  next
    assume "\<exists>f \<in> set names. msg = units (f @ '' is required'') \<and> required_error fmt data f = Inr [msg]"
    then obtain f where f: "f \<in> set names" "required_error fmt data f = Inr [msg]"
      by auto
    then obtain j where j: "j < length names" "names ! j = f"
      by (auto simp: in_set_conv_nth)
    with all2 f(2) have "j < length req" "req ! j = [msg]"
      by (auto simp: list_all2_conv_all_nth)
    then have "[msg] \<in> set req"
      by (metis nth_mem)
    then show "msg \<in> set (concat req)"
      by (auto intro: bexI [where x = "[msg]"])
  qed
qed

lemma singleton_result_set:
  assumes "r = Inr y" and "y = [] \<or> y = [m]"
  shows "(msg \<in> set y) = (msg = m \<and> r = Inr [m])"
  using assms by auto

lemma validateData_errors_set:
  assumes "validateData fmt data = Inr v"
  shows "(msg \<in> set (errors v)) =
           ((\<exists>f \<in> set requiredFields. msg = units (f @ '' is required'') \<and> required_error fmt data f = Inr [msg])
          \<or> (msg = (units ''At least one city must be selected'')
               \<and> multi_error data ''cityMulti'' (units ''At least one city must be selected'')
                    = Inr [(units ''At least one city must be selected'')])
          \<or> (msg = (units ''At least one pin code must be selected'')
               \<and> multi_error data ''pinCode'' (units ''At least one pin code must be selected'')
                    = Inr [(units ''At least one pin code must be selected'')])
          \<or> (msg = (units ''At least one area must be selected'')
               \<and> multi_error data ''areaMulti'' (units ''At least one area must be selected'')
                    = Inr [(units ''At least one area must be selected'')])
          \<or> (msg = (units ''At least one language must be selected'')
               \<and> multi_error data ''languages'' (units ''At least one language must be selected'')
                    = Inr [(units ''At least one language must be selected'')])
          \<or> (msg = (units ''Postal code must be 6 digits'')
               \<and> postal_error fmt data = Inr [(units ''Postal code must be 6 digits'')]))"
proof -
  from validateData_Inr [OF assms] obtain req e1 e2 e3 e4 e5 where
    req: "js_map (required_error fmt data) requiredFields = Inr req"
    and e1: "multi_error data ''cityMulti'' (units ''At least one city must be selected'') = Inr e1"
    and e2: "multi_error data ''pinCode'' (units ''At least one pin code must be selected'') = Inr e2"
    and e3: "multi_error data ''areaMulti'' (units ''At least one area must be selected'') = Inr e3"
    and e4: "multi_error data ''languages'' (units ''At least one language must be selected'') = Inr e4"
    and e5: "postal_error fmt data = Inr e5"
    and errs: "errors v = concat req @ e1 @ e2 @ e3 @ e4 @ e5"
    by blast
  have "(msg \<in> set (errors v)) =
          (msg \<in> set (concat req) \<or> msg \<in> set e1 \<or> msg \<in> set e2 \<or> msg \<in> set e3
           \<or> msg \<in> set e4 \<or> msg \<in> set e5)"
    by (simp add: errs)
  then show ?thesis
    unfolding required_errors_set [OF req]
      singleton_result_set [OF e1 multi_error_result [OF e1]]
      singleton_result_set [OF e2 multi_error_result [OF e2]]
      singleton_result_set [OF e3 multi_error_result [OF e3]]
      singleton_result_set [OF e4 multi_error_result [OF e4]]
      singleton_result_set [OF e5 postal_error_result [OF e5]]
    by simp
qed

lemma ToString_js_primitive:
  "primitive v \<Longrightarrow> \<exists>s. ToString_js fmt v = Inr s"
  by (cases v rule: primitive.cases) (simp_all, (case_tac v, simp_all)?)

lemma js_map_exists:
  "list_all (\<lambda>x. \<exists>y. g x = Inr y) xs \<Longrightarrow> \<exists>ys. js_map g xs = Inr ys"
  by (induction xs) (auto simp: js_map_def)

lemma required_error_primitive:
  "primitive (fmlookup m f) \<Longrightarrow> \<exists>y. required_error fmt (JObj m) f = Inr y"
  using ToString_js_primitive [of "fmlookup m f" fmt]
  by (auto simp: required_error_def)

lemma multi_error_object:
  "\<exists>y. multi_error (JObj m) f msg = Inr y"
proof (cases "fmlookup m f")
  case None
  then show ?thesis by (simp add: multi_error_def)
next
  case (Some x)
  then show ?thesis
    by (cases x) (simp_all add: multi_error_def)
qed

lemma postal_error_primitive:
  "primitive (fmlookup m ''postalCode'') \<Longrightarrow> \<exists>y. postal_error fmt (JObj m) = Inr y"
  using ToString_js_primitive [of "fmlookup m ''postalCode''" fmt]
  by (auto simp: postal_error_def)

lemma validateData_primitive:
  assumes "list_all (\<lambda>f. primitive (fmlookup m f)) requiredFields"
  shows "\<exists>v. validateData fmt (JObj m) = Inr v"
proof -
  have "list_all (\<lambda>f. \<exists>y. required_error fmt (JObj m) f = Inr y) requiredFields"
    using assms by (rule list_all_weaken) (rule required_error_primitive)
  then obtain req where req: "js_map (required_error fmt (JObj m)) requiredFields = Inr req"
    using js_map_exists by blast
  have "primitive (fmlookup m ''postalCode'')"
    using assms by (simp add: requiredFields_def)
  then obtain e5 where e5: "postal_error fmt (JObj m) = Inr e5"
    using postal_error_primitive by blast
  obtain e1 where e1: "multi_error (JObj m) ''cityMulti'' (units ''At least one city must be selected'') = Inr e1"
    using multi_error_object by blast
  obtain e2 where e2: "multi_error (JObj m) ''pinCode'' (units ''At least one pin code must be selected'') = Inr e2"
    using multi_error_object by blast
  obtain e3 where e3: "multi_error (JObj m) ''areaMulti'' (units ''At least one area must be selected'') = Inr e3"
    using multi_error_object by blast
  obtain e4 where e4: "multi_error (JObj m) ''languages'' (units ''At least one language must be selected'') = Inr e4"
    using multi_error_object by blast
  show ?thesis
    by (simp add: validateData_def req e1 e2 e3 e4 e5 Let_def)
qed

lemma postal_error_only_if:
  assumes "postal_error fmt data = Inr [(units ''Postal code must be 6 digits'')]"
  shows "\<exists>x s. get_prop data ''postalCode'' = Inr (Some x) \<and> truthy x
               \<and> ToString fmt x = Inr s \<and> \<not> six_digits s"
proof -
  from assms obtain v where v: "get_prop data ''postalCode'' = Inr v" "truthy_js v"
    by (auto simp: postal_error_def bind_e_def split: sum.splits if_splits)
  then obtain x where x: "v = Some x" "truthy x"
    by (cases v) simp_all
  with assms v show ?thesis
    by (auto simp: postal_error_def bind_e_def split: sum.splits if_splits)
qed

lemma required_msg_distinct:
  "f \<in> set requiredFields \<Longrightarrow>
     units (f @ '' is required'') \<noteq> (units ''At least one city must be selected'')
   \<and> units (f @ '' is required'') \<noteq> (units ''At least one pin code must be selected'')
   \<and> units (f @ '' is required'') \<noteq> (units ''At least one area must be selected'')
   \<and> units (f @ '' is required'') \<noteq> (units ''At least one language must be selected'')
   \<and> units (f @ '' is required'') \<noteq> (units ''Postal code must be 6 digits'')"
  by (auto simp: requiredFields_def)

text \<open>
  The checks on a form, against the violations stated on the data.
\<close>

lemma is_space_white: "is_space c = (c \<in> white_space)"
  by (simp add: is_space_def white_space_def)

lemma all_space_white: "list_all is_space s = (set s \<subseteq> white_space)"
  by (auto simp: list_all_iff is_space_white)

lemma six_digits_spec: "six_digits s = (length s = 6 \<and> set s \<subseteq> {0x30 .. 0x39})"
  by (auto simp: six_digits_def list_all_iff is_digit_def)

lemma required_error_form:
  assumes "case fmlookup m f of None \<Rightarrow> True | Some (JStr s) \<Rightarrow> True | Some _ \<Rightarrow> False"
  shows "required_error fmt (JObj m) f =
           Inr (if spec_missing (fmlookup m f) then [units (f @ '' is required'')] else [])"
proof (cases "fmlookup m f")
  case None
  then show ?thesis
    by (simp add: required_error_absent spec_missing_def)
next
  case (Some x)
  with assms obtain s where "x = JStr s"
    by (cases x) simp_all
  with Some show ?thesis
    by (simp add: required_error_string spec_missing_def all_space_white)
qed

lemma multi_error_form:
  assumes "case fmlookup m f of None \<Rightarrow> True | Some (JArr xs) \<Rightarrow> True | Some _ \<Rightarrow> False"
  shows "multi_error (JObj m) f msg = Inr (if spec_unselected (fmlookup m f) then [msg] else [])"
proof (cases "fmlookup m f")
  case None
  then show ?thesis
    by (simp add: multi_error_absent spec_unselected_def)
next
  case (Some x)
  with assms obtain xs where "x = JArr xs"
    by (cases x) simp_all
  with Some show ?thesis
    by (simp add: multi_error_array spec_unselected_def)
qed

lemma postal_error_form:
  assumes "case fmlookup m ''postalCode'' of None \<Rightarrow> True | Some (JStr s) \<Rightarrow> True | Some _ \<Rightarrow> False"
  shows "postal_error fmt (JObj m) =
           Inr (if spec_malformed (fmlookup m ''postalCode'')
                then [units ''Postal code must be 6 digits''] else [])"
proof (cases "fmlookup m ''postalCode''")
  case None
  then show ?thesis
    by (simp add: postal_error_def spec_malformed_def)
next
  case (Some x)
  with assms obtain s where "x = JStr s"
    by (cases x) simp_all
  with Some show ?thesis
    by (simp add: postal_error_string spec_malformed_def six_digits_spec)
qed

lemma validateData_form:
  assumes "form_shaped m"
  shows "validateData fmt (JObj m) =
           Inr \<lparr>valid = (spec_violations m = []), errors = spec_violations m\<rparr>"
proof -
  from assms have "list_all
      (\<lambda>f. case fmlookup m f of None \<Rightarrow> True | Some (JStr s) \<Rightarrow> True | Some _ \<Rightarrow> False)
      requiredFields"
    by (simp add: form_shaped_def)
  then have req: "list_all (\<lambda>f. required_error fmt (JObj m) f =
      Inr (if spec_missing (fmlookup m f) then [units (f @ '' is required'')] else [])) requiredFields"
    by (rule list_all_weaken) (rule required_error_form)
  from assms have postal:
    "case fmlookup m ''postalCode'' of None \<Rightarrow> True | Some (JStr s) \<Rightarrow> True | Some _ \<Rightarrow> False"
    by (simp add: form_shaped_def requiredFields_def)
  from assms have multi:
    "case fmlookup m ''cityMulti'' of None \<Rightarrow> True | Some (JArr xs) \<Rightarrow> True | Some _ \<Rightarrow> False"
    "case fmlookup m ''pinCode'' of None \<Rightarrow> True | Some (JArr xs) \<Rightarrow> True | Some _ \<Rightarrow> False"
    "case fmlookup m ''areaMulti'' of None \<Rightarrow> True | Some (JArr xs) \<Rightarrow> True | Some _ \<Rightarrow> False"
    "case fmlookup m ''languages'' of None \<Rightarrow> True | Some (JArr xs) \<Rightarrow> True | Some _ \<Rightarrow> False"
    by (simp_all add: form_shaped_def)
  show ?thesis
    unfolding validateData_def js_map_total [OF req] multi_error_form [OF multi(1)]
      multi_error_form [OF multi(2)] multi_error_form [OF multi(3)] multi_error_form [OF multi(4)]
      postal_error_form [OF postal]
    by (simp add: spec_violations_def Let_def)
qed

text \<open>
  Claim C7: \<^verbatim>\<open>validateData({})\<close> returns \<^verbatim>\<open>valid: false\<close> with one error for each of the
  ten required fields and one for each of the four multi-select fields, fourteen in all,
  and no error about the format of the postal code. In general, whenever
  \<^verbatim>\<open>validateData\<close> returns, \<^verbatim>\<open>valid\<close> is true exactly when the list of errors is empty,
  and the list holds the message of a check exactly when that check, taken on its own,
  fails: no failure hides another. The postal code message is there only if a postal
  code was supplied (a truthy value) and its text is not six digits. On an object whose
  required fields hold no array and no object the call does return. On a form it returns
  the list of all the violations of the form, in the order of the checks: a message for
  each required field that is absent or blank, for each multi-select field that is absent
  or empty, and for a postal code that is not empty and not six digits.
\<close>

theorem validate_reports_every_violation:
  "validateData fmt (JObj fmempty) =
     Inr \<lparr>valid = False,
          errors = [(units ''name is required''), (units ''address1 is required''), (units ''city is required''),
                    (units ''state is required''), (units ''postalCode is required''), (units ''dob is required''),
                    (units ''gender is required''), (units ''status is required''),
                    (units ''onboardingDate is required''), (units ''type is required''),
                    (units ''At least one city must be selected''),
                    (units ''At least one pin code must be selected''),
                    (units ''At least one area must be selected''),
                    (units ''At least one language must be selected'')]\<rparr>
   \<and> (validateData fmt data = Inr v \<longrightarrow>
          valid v = (errors v = [])
        \<and> (\<forall>f \<in> set requiredFields.
              ((units (f @ '' is required'')) \<in> set (errors v))
                = (required_error fmt data f = Inr [units (f @ '' is required'')]))
        \<and> (((units ''At least one city must be selected'') \<in> set (errors v))
              = (multi_error data ''cityMulti'' (units ''At least one city must be selected'')
                   = Inr [(units ''At least one city must be selected'')]))
        \<and> (((units ''At least one pin code must be selected'') \<in> set (errors v))
              = (multi_error data ''pinCode'' (units ''At least one pin code must be selected'')
                   = Inr [(units ''At least one pin code must be selected'')]))
        \<and> (((units ''At least one area must be selected'') \<in> set (errors v))
              = (multi_error data ''areaMulti'' (units ''At least one area must be selected'')
                   = Inr [(units ''At least one area must be selected'')]))
        \<and> (((units ''At least one language must be selected'') \<in> set (errors v))
              = (multi_error data ''languages'' (units ''At least one language must be selected'')
                   = Inr [(units ''At least one language must be selected'')]))
        \<and> (((units ''Postal code must be 6 digits'') \<in> set (errors v))
              = (postal_error fmt data = Inr [(units ''Postal code must be 6 digits'')])))
   \<and> (postal_error fmt data = Inr [(units ''Postal code must be 6 digits'')] \<longrightarrow>
          (\<exists>x s. get_prop data ''postalCode'' = Inr (Some x) \<and> truthy x
                 \<and> ToString fmt x = Inr s \<and> \<not> six_digits s))
   \<and> (list_all (\<lambda>f. primitive (fmlookup m f)) requiredFields \<longrightarrow>
          (\<exists>r. validateData fmt (JObj m) = Inr r))
   \<and> (form_shaped m \<longrightarrow>
          validateData fmt (JObj m) =
            Inr \<lparr>valid = (spec_violations m = []), errors = spec_violations m\<rparr>)"
proof -
  have general: "valid v = (errors v = [])
        \<and> (\<forall>f \<in> set requiredFields.
              ((units (f @ '' is required'')) \<in> set (errors v))
                = (required_error fmt data f = Inr [units (f @ '' is required'')]))
        \<and> (((units ''At least one city must be selected'') \<in> set (errors v))
              = (multi_error data ''cityMulti'' (units ''At least one city must be selected'')
                   = Inr [(units ''At least one city must be selected'')]))
        \<and> (((units ''At least one pin code must be selected'') \<in> set (errors v))
              = (multi_error data ''pinCode'' (units ''At least one pin code must be selected'')
                   = Inr [(units ''At least one pin code must be selected'')]))
        \<and> (((units ''At least one area must be selected'') \<in> set (errors v))
              = (multi_error data ''areaMulti'' (units ''At least one area must be selected'')
                   = Inr [(units ''At least one area must be selected'')]))
        \<and> (((units ''At least one language must be selected'') \<in> set (errors v))
              = (multi_error data ''languages'' (units ''At least one language must be selected'')
                   = Inr [(units ''At least one language must be selected'')]))
        \<and> (((units ''Postal code must be 6 digits'') \<in> set (errors v))
              = (postal_error fmt data = Inr [(units ''Postal code must be 6 digits'')]))"
    if ret: "validateData fmt data = Inr v"
  proof -
    have a: "valid v = (errors v = [])"
      using validateData_Inr [OF ret] by blast
    have b: "((units (f @ '' is required'')) \<in> set (errors v))
                = (required_error fmt data f = Inr [units (f @ '' is required'')])"
      if f: "f \<in> set requiredFields" for f
      unfolding validateData_errors_set [OF ret]
      using f required_msg_distinct [OF f] by auto
    have names: "\<And>f. f \<in> set requiredFields \<Longrightarrow>
           units (f @ '' is required'') \<noteq> (units ''At least one city must be selected'')
         \<and> units (f @ '' is required'') \<noteq> (units ''At least one pin code must be selected'')
         \<and> units (f @ '' is required'') \<noteq> (units ''At least one area must be selected'')
         \<and> units (f @ '' is required'') \<noteq> (units ''At least one language must be selected'')
         \<and> units (f @ '' is required'') \<noteq> (units ''Postal code must be 6 digits'')"
      by (rule required_msg_distinct)
    have c1: "((units ''At least one city must be selected'') \<in> set (errors v))
              = (multi_error data ''cityMulti'' (units ''At least one city must be selected'')
                   = Inr [(units ''At least one city must be selected'')])"
      unfolding validateData_errors_set [OF ret] using names by auto
    have c2: "((units ''At least one pin code must be selected'') \<in> set (errors v))
              = (multi_error data ''pinCode'' (units ''At least one pin code must be selected'')
                   = Inr [(units ''At least one pin code must be selected'')])"
      unfolding validateData_errors_set [OF ret] using names by auto
    have c3: "((units ''At least one area must be selected'') \<in> set (errors v))
              = (multi_error data ''areaMulti'' (units ''At least one area must be selected'')
                   = Inr [(units ''At least one area must be selected'')])"
      unfolding validateData_errors_set [OF ret] using names by auto
    have c4: "((units ''At least one language must be selected'') \<in> set (errors v))
              = (multi_error data ''languages'' (units ''At least one language must be selected'')
                   = Inr [(units ''At least one language must be selected'')])"
      unfolding validateData_errors_set [OF ret] using names by auto
    have c5: "((units ''Postal code must be 6 digits'') \<in> set (errors v))
              = (postal_error fmt data = Inr [(units ''Postal code must be 6 digits'')])"
      unfolding validateData_errors_set [OF ret] using names by auto
    from a b c1 c2 c3 c4 c5 show ?thesis
      by blast
  qed
  from validateData_empty [of fmt] general postal_error_only_if [of fmt data]
       validateData_primitive [of m fmt] validateData_form [of m fmt]
  show ?thesis
    by blast
qed


text \<open>
  The theorem on a form whose name is a space and a no-break space, whose postal code is
  \<^verbatim>\<open>12\<close> and where no city is selected, and on a form that is filled in.
\<close>

lemmas spec_eval = spec_violations_def spec_missing_def spec_unselected_def spec_malformed_def
  white_space_def form_shaped_def requiredFields_def units_def

theorem validate_reports_every_violation_witness:
  "form_shaped (sample_form [0x20, 0xA0] (units ''12'') [])
   \<and> validateData (\<lambda>q. []) (JObj (sample_form [0x20, 0xA0] (units ''12'') [])) =
       Inr \<lparr>valid = False,
            errors = [units ''name is required'', units ''At least one city must be selected'',
                      units ''Postal code must be 6 digits'']\<rparr>
   \<and> form_shaped (sample_form (units ''Alice'') (units ''560001'') [JStr (units ''Bengaluru'')])
   \<and> validateData (\<lambda>q. [])
         (JObj (sample_form (units ''Alice'') (units ''560001'') [JStr (units ''Bengaluru'')])) =
       Inr \<lparr>valid = True, errors = []\<rparr>
   \<and> required_error (\<lambda>q. []) (JObj (sample_form [0x20, 0xA0] (units ''12'') [])) ''name''
       = Inr [units ''name is required'']
   \<and> required_error (\<lambda>q. []) (JObj (sample_form [0x20, 0xA0] (units ''12'') [])) ''city''
       \<noteq> Inr [units ''city is required'']
   \<and> postal_error (\<lambda>q. []) (JObj (sample_form [0x20, 0xA0] (units ''12'') []))
       = Inr [units ''Postal code must be 6 digits'']
   \<and> (\<exists>x s. get_prop (JObj (sample_form [0x20, 0xA0] (units ''12'') [])) ''postalCode'' = Inr (Some x)
          \<and> truthy x \<and> ToString (\<lambda>q. []) x = Inr s \<and> \<not> six_digits s)
   \<and> list_all (\<lambda>f. primitive (fmlookup (sample_form [0x20, 0xA0] (units ''12'') []) f)) requiredFields
   \<and> (\<exists>r. validateData (\<lambda>q. []) (JObj (sample_form [0x20, 0xA0] (units ''12'') [])) = Inr r)"
proof -
  let ?m = "sample_form [0x20, 0xA0] (units ''12'') []"
  let ?ok = "sample_form (units ''Alice'') (units ''560001'') [JStr (units ''Bengaluru'')]"
  let ?fmt = "\<lambda>q::rat. [] :: string"
  let ?v = "\<lparr>valid = False,
            errors = [units ''name is required'', units ''At least one city must be selected'',
                      units ''Postal code must be 6 digits'']\<rparr>"
  have shaped: "form_shaped ?m"
    by (simp add: form_shaped_def requiredFields_def)
  have shaped_ok: "form_shaped ?ok"
    by (simp add: form_shaped_def requiredFields_def)
  have viol: "spec_violations ?m = errors ?v"
    by (simp add: spec_eval)
  have viol_ok: "spec_violations ?ok = []"
    by (simp add: spec_eval)
  note inst = validate_reports_every_violation [of ?fmt "JObj ?m" ?v ?m]
  note inst_ok = validate_reports_every_violation [of ?fmt "JObj ?ok" "\<lparr>valid = True, errors = []\<rparr>" ?ok]
  from inst shaped have "validateData ?fmt (JObj ?m) =
      Inr \<lparr>valid = (spec_violations ?m = []), errors = spec_violations ?m\<rparr>"
    by blast
  then have ret: "validateData ?fmt (JObj ?m) = Inr ?v"
    unfolding viol by simp
  from inst_ok shaped_ok have "validateData ?fmt (JObj ?ok) =
      Inr \<lparr>valid = (spec_violations ?ok = []), errors = spec_violations ?ok\<rparr>"
    by blast
  then have ret_ok: "validateData ?fmt (JObj ?ok) = Inr \<lparr>valid = True, errors = []\<rparr>"
    unfolding viol_ok by simp
  have name: "''name'' \<in> set requiredFields" and city: "''city'' \<in> set requiredFields"
    by (simp_all add: requiredFields_def)
  from inst ret name have "((units (''name'' @ '' is required'')) \<in> set (errors ?v))
        = (required_error ?fmt (JObj ?m) ''name'' = Inr [units (''name'' @ '' is required'')])"
    by blast
  then have req_name: "required_error ?fmt (JObj ?m) ''name'' = Inr [units ''name is required'']"
    by simp
  from inst ret city have "((units (''city'' @ '' is required'')) \<in> set (errors ?v))
        = (required_error ?fmt (JObj ?m) ''city'' = Inr [units (''city'' @ '' is required'')])"
    by blast
  then have req_city: "required_error ?fmt (JObj ?m) ''city'' \<noteq> Inr [units ''city is required'']"
    by simp
  from inst ret have "((units ''Postal code must be 6 digits'') \<in> set (errors ?v))
        = (postal_error ?fmt (JObj ?m) = Inr [units ''Postal code must be 6 digits''])"
    by blast
  then have postal: "postal_error ?fmt (JObj ?m) = Inr [units ''Postal code must be 6 digits'']"
    by simp
  from inst postal have shape: "\<exists>x s. get_prop (JObj ?m) ''postalCode'' = Inr (Some x)
          \<and> truthy x \<and> ToString ?fmt x = Inr s \<and> \<not> six_digits s"
    by blast
  have prim: "list_all (\<lambda>f. primitive (fmlookup ?m f)) requiredFields"
    by (simp add: requiredFields_def)
  from inst prim have total: "\<exists>r. validateData ?fmt (JObj ?m) = Inr r"
    by blast
  from shaped ret shaped_ok ret_ok req_name req_city postal shape prim total show ?thesis
    by blast
qed

subsection \<open>Filtering\<close>

lemma mismatch_object:
  assumes "reg \<noteq> JNull" and "k \<noteq> ''length''"
  shows "mismatch (JObj criteria) reg k =
           Inr (case fmlookup criteria k of
                  None \<Rightarrow> False
                | Some wanted \<Rightarrow> truthy wanted \<and> \<not> strict_eq (fmlookup (own_props reg) k) (Some wanted))"
  using assms by (simp add: mismatch_def get_prop_nonnull split: option.splits)

lemma filter_matches_object:
  assumes "reg \<noteq> JNull"
  shows "filter_matches (JObj criteria) reg =
           Inr (list_all (\<lambda>k. case fmlookup criteria k of
                                None \<Rightarrow> True
                              | Some wanted \<Rightarrow>
                                  \<not> truthy wanted \<or> strict_eq (fmlookup (own_props reg) k) (Some wanted))
                  [''type'', ''status'', ''city'', ''state''])"
  by (simp add: filter_matches_def mismatch_object [OF assms] split: option.splits)

text \<open>
  Claim C9, as amended: on a stored collection of records, \<^verbatim>\<open>filterRegistrations(criteria)\<close>
  returns, in their order, exactly the records that agree with the criteria on each of
  the keys \<^verbatim>\<open>type\<close>, \<^verbatim>\<open>status\<close>, \<^verbatim>\<open>city\<close> and \<^verbatim>\<open>state\<close> that is present in
  \<open>criteria\<close> with a truthy value: for such a key the field of the record must be
  strictly equal to the wanted value. A key that is absent, or present with a falsy value
  such as the empty string, imposes no constraint.
\<close>

theorem filter_by_truthy_criteria:
  assumes "getAllRegistrations st = JArr regs"
    and "list_all (\<lambda>reg. reg \<noteq> JNull) regs"
  shows "filterRegistrations (JObj criteria) st =
           Inr (filter
                  (\<lambda>reg. list_all (\<lambda>k. case fmlookup criteria k of
                                None \<Rightarrow> True
                              | Some wanted \<Rightarrow>
                                  \<not> truthy wanted \<or> strict_eq (fmlookup (own_props reg) k) (Some wanted))
                  [''type'', ''status'', ''city'', ''state''])
                  regs)"
proof -
  have "list_all (\<lambda>reg. filter_matches (JObj criteria) reg =
           Inr (list_all (\<lambda>k. case fmlookup criteria k of
                                None \<Rightarrow> True
                              | Some wanted \<Rightarrow>
                                  \<not> truthy wanted \<or> strict_eq (fmlookup (own_props reg) k) (Some wanted))
                  [''type'', ''status'', ''city'', ''state''])) regs"
    using assms(2) by (rule list_all_weaken) (rule filter_matches_object)
  then show ?thesis
    by (simp add: filterRegistrations_def assms(1) js_filter_total)
qed

text \<open>
  The theorem on a mixed collection of three records, filtered by
  \<^verbatim>\<open>{type: "Agency", state: "KA"}\<close>: only the record that matches both is returned.
\<close>

theorem filter_by_truthy_criteria_witness:
  "getAllRegistrations (store_of
       [JObj (fmupd ''type'' (JStr (units ''Agency'')) (fmupd ''state'' (JStr (units ''KA'')) fmempty)),
        JObj (fmupd ''type'' (JStr (units ''Agency'')) (fmupd ''state'' (JStr (units ''MH'')) fmempty)),
        JObj (fmupd ''type'' (JStr (units ''Individual'')) (fmupd ''state'' (JStr (units ''KA'')) fmempty))])
     = JArr
       [JObj (fmupd ''type'' (JStr (units ''Agency'')) (fmupd ''state'' (JStr (units ''KA'')) fmempty)),
        JObj (fmupd ''type'' (JStr (units ''Agency'')) (fmupd ''state'' (JStr (units ''MH'')) fmempty)),
        JObj (fmupd ''type'' (JStr (units ''Individual'')) (fmupd ''state'' (JStr (units ''KA'')) fmempty))]
   \<and> list_all (\<lambda>reg. reg \<noteq> JNull)
       [JObj (fmupd ''type'' (JStr (units ''Agency'')) (fmupd ''state'' (JStr (units ''KA'')) fmempty)),
        JObj (fmupd ''type'' (JStr (units ''Agency'')) (fmupd ''state'' (JStr (units ''MH'')) fmempty)),
        JObj (fmupd ''type'' (JStr (units ''Individual'')) (fmupd ''state'' (JStr (units ''KA'')) fmempty))]
   \<and> filterRegistrations
        (JObj (fmupd ''type'' (JStr (units ''Agency'')) (fmupd ''state'' (JStr (units ''KA'')) fmempty)))
        (store_of
       [JObj (fmupd ''type'' (JStr (units ''Agency'')) (fmupd ''state'' (JStr (units ''KA'')) fmempty)),
        JObj (fmupd ''type'' (JStr (units ''Agency'')) (fmupd ''state'' (JStr (units ''MH'')) fmempty)),
        JObj (fmupd ''type'' (JStr (units ''Individual'')) (fmupd ''state'' (JStr (units ''KA'')) fmempty))])
     = Inr [JObj (fmupd ''type'' (JStr (units ''Agency'')) (fmupd ''state'' (JStr (units ''KA'')) fmempty))]"
proof -
  let ?regs = "[JObj (fmupd ''type'' (JStr (units ''Agency'')) (fmupd ''state'' (JStr (units ''KA'')) fmempty)),
        JObj (fmupd ''type'' (JStr (units ''Agency'')) (fmupd ''state'' (JStr (units ''MH'')) fmempty)),
        JObj (fmupd ''type'' (JStr (units ''Individual'')) (fmupd ''state'' (JStr (units ''KA'')) fmempty))]"
  let ?st = "(store_of ?regs)"
  have h1: "getAllRegistrations ?st = JArr ?regs"
    by (simp add: getAllRegistrations_def)
  have h2: "list_all (\<lambda>reg. reg \<noteq> JNull) ?regs"
    by simp
  from filter_by_truthy_criteria [OF h1 h2,
         of "fmupd ''type'' (JStr (units ''Agency'')) (fmupd ''state'' (JStr (units ''KA'')) fmempty)"] h1 h2
  show ?thesis
    by simp
qed

text \<open>
  A key that is present does not always constrain: with the criteria \<^verbatim>\<open>{city: ""}\<close> the
  record of city Pune is returned, though its city is not equal to the empty string.
\<close>

theorem filter_empty_criterion_counterexample:
  "filterRegistrations (JObj (fmupd ''city'' (JStr []) fmempty))
        (store_of [JObj (fmupd ''city'' (JStr (units ''Pune'')) fmempty)])
     = Inr [JObj (fmupd ''city'' (JStr (units ''Pune'')) fmempty)]
   \<and> fmlookup (fmupd ''city'' (JStr []) fmempty) ''city'' = Some (JStr [])
   \<and> \<not> strict_eq (fmlookup (fmupd ''city'' (JStr (units ''Pune'')) fmempty) ''city'')
           (fmlookup (fmupd ''city'' (JStr []) fmempty) ''city'')"
  by (simp add: filterRegistrations_def getAllRegistrations_def filter_matches_def mismatch_def)

subsection \<open>Export to CSV\<close>

lemma js_map_Nil [simp]: "js_map g [] = Inr []"
  by (simp add: js_map_def)

lemma js_map_Cons [simp]:
  "js_map g (x # xs) =
     (case g x of
        Inl e \<Rightarrow> Inl e
      | Inr y \<Rightarrow> (case js_map g xs of Inl e \<Rightarrow> Inl e | Inr ys \<Rightarrow> Inr (y # ys)))"
  by (cases "g x") (simp_all add: js_map_def)

lemma exportToCSV_array:
  assumes "getAllRegistrations st = JArr regs"
  shows "exportToCSV fmt st =
           (if regs = [] then Inr []
            else bind_e (js_map csv_row regs) (\<lambda>rows.
                 bind_e (js_map (csv_line fmt) rows) (\<lambda>lines.
                 Inr (join [0x0A] (join (units '','') headers # lines)))))"
  by (simp add: exportToCSV_def assms Let_def)

lemma csv_row_length:
  "csv_row reg = Inr row \<Longrightarrow> length row = 11"
  by (auto simp: csv_row_def bind_e_def split: sum.splits)

lemma quoted_cells:
  "js_map (quote_cell fmt) row = Inr cells \<Longrightarrow>
   \<exists>texts. js_map (ToString_js fmt) row = Inr texts
          \<and> cells = map quoted texts"
proof (induction row arbitrary: cells)
  case Nil
  then show ?case by simp
next
  case (Cons c row)
  from Cons.prems obtain q rest where
    q: "quote_cell fmt c = Inr q" and rest: "js_map (quote_cell fmt) row = Inr rest"
    and cells: "cells = q # rest"
    by (auto split: sum.splits)
  from q obtain s where s: "ToString_js fmt c = Inr s" "q = [0x22] @ s @ [0x22]"
    by (auto simp: quote_cell_def bind_e_def split: sum.splits)
  from Cons.IH [OF rest] obtain texts where
    "js_map (ToString_js fmt) row = Inr texts" "rest = map quoted texts"
    by blast
  with s cells show ?case
    by simp
qed

lemma csv_line_shape:
  assumes "csv_line fmt row = Inr line"
  shows "\<exists>texts. js_map (ToString_js fmt) row = Inr texts
          \<and> line = join (units '','') (map quoted texts)"
proof -
  from assms obtain cells where "js_map (quote_cell fmt) row = Inr cells" "line = join (units '','') cells"
    by (auto simp: csv_line_def bind_e_def split: sum.splits)
  with quoted_cells [of fmt row cells] show ?thesis
    by blast
qed

lemma count_join_lines:
  "list_all (\<lambda>l. 0x0A \<notin> set l) ls \<Longrightarrow>
   length (filter (\<lambda>c. c = 0x0A) (join [0x0A] ls)) = length ls - 1"
proof (induction "[0x0A] :: ustring" ls rule: join.induct)
  case 1
  show ?case by simp
next
  case (2 s)
  then have "filter (\<lambda>c. c = 0x0A) s = []"
    by (auto simp: filter_empty_conv)
  then show ?case by simp
next
  case (3 s t ss)
  then have "filter (\<lambda>c. c = 0x0A) s = []"
    by (auto simp: filter_empty_conv)
  with 3 show ?case by simp
qed

lemma js_map_nth:
  assumes "js_map g xs = Inr ys"
  shows "length ys = length xs" and "j < length xs \<Longrightarrow> g (xs ! j) = Inr (ys ! j)"
  using js_map_Inr [OF assms] by (auto simp: list_all2_conv_all_nth)

lemma csv_row_nonnull:
  "reg \<noteq> JNull \<Longrightarrow>
   csv_row reg = Inr [fmlookup (own_props reg) ''id'', fmlookup (own_props reg) ''name'',
                      or_empty (fmlookup (own_props reg) ''email''),
                      fmlookup (own_props reg) ''city'', fmlookup (own_props reg) ''state'',
                      fmlookup (own_props reg) ''postalCode'', fmlookup (own_props reg) ''type'',
                      fmlookup (own_props reg) ''status'', fmlookup (own_props reg) ''gender'',
                      fmlookup (own_props reg) ''dob'', fmlookup (own_props reg) ''submittedAt'']"
  by (simp add: csv_row_def get_prop_nonnull)

lemma or_empty_primitive:
  "primitive v \<Longrightarrow> primitive (or_empty v)"
  by (simp add: or_empty_def)

lemma csv_line_primitive:
  assumes "list_all primitive row"
  shows "\<exists>line. csv_line fmt row = Inr line"
proof -
  have "list_all (\<lambda>c. \<exists>q. quote_cell fmt c = Inr q) row"
    using assms
  proof (rule list_all_weaken)
    fix c :: js
    assume "primitive c"
    then obtain s where "ToString_js fmt c = Inr s"
      using ToString_js_primitive by blast
    then show "\<exists>q. quote_cell fmt c = Inr q"
      by (simp add: quote_cell_def)
  qed
  then obtain cells where "js_map (quote_cell fmt) row = Inr cells"
    using js_map_exists by blast
  then show ?thesis
    by (simp add: csv_line_def)
qed

lemma export_rows_total:
  assumes "list_all (\<lambda>reg. reg \<noteq> JNull \<and> list_all (\<lambda>k. primitive (fmlookup (own_props reg) k))
              [''id'', ''name'', ''email'', ''city'', ''state'', ''postalCode'', ''type'',
               ''status'', ''gender'', ''dob'', ''submittedAt'']) regs"
  shows "\<exists>rows lines. js_map csv_row regs = Inr rows \<and> js_map (csv_line fmt) rows = Inr lines"
  using assms
proof (induction regs)
  case Nil
  show ?case by simp
next
  case (Cons reg regs)
  then obtain rows lines where
    rest: "js_map csv_row regs = Inr rows" "js_map (csv_line fmt) rows = Inr lines"
    by auto
  from Cons.prems have nonnull: "reg \<noteq> JNull"
    and prim: "list_all (\<lambda>k. primitive (fmlookup (own_props reg) k))
              [''id'', ''name'', ''email'', ''city'', ''state'', ''postalCode'', ''type'',
               ''status'', ''gender'', ''dob'', ''submittedAt'']"
    by simp_all
  let ?row = "[fmlookup (own_props reg) ''id'', fmlookup (own_props reg) ''name'',
                      or_empty (fmlookup (own_props reg) ''email''),
                      fmlookup (own_props reg) ''city'', fmlookup (own_props reg) ''state'',
                      fmlookup (own_props reg) ''postalCode'', fmlookup (own_props reg) ''type'',
                      fmlookup (own_props reg) ''status'', fmlookup (own_props reg) ''gender'',
                      fmlookup (own_props reg) ''dob'', fmlookup (own_props reg) ''submittedAt'']"
  have row: "csv_row reg = Inr ?row"
    using nonnull by (rule csv_row_nonnull)
  have "list_all primitive ?row"
    using prim by (simp add: or_empty_primitive)
  then obtain line where line: "csv_line fmt ?row = Inr line"
    using csv_line_primitive by blast
  show ?case
    using rest row line by simp
qed

lemma export_lines:
  assumes "getAllRegistrations st = JArr regs" and "regs \<noteq> []"
    and "exportToCSV fmt st = Inr text"
  shows "\<exists>rows lines. js_map csv_row regs = Inr rows \<and> js_map (csv_line fmt) rows = Inr lines
           \<and> text = join [0x0A] (join (units '','') headers # lines)"
  using assms(3) unfolding exportToCSV_array [OF assms(1)]
  by (auto simp: assms(2) bind_e_def split: sum.splits)

lemma headers_line:
  "join (units '','') headers = (units ''ID,Name,Email,City,State,Postal Code,Type,Status,Gender,DOB,Submitted At'')"
  by (simp add: headers_def units_def)

text \<open>
  Claim C8, as amended: for the empty collection \<^verbatim>\<open>exportToCSV\<close> returns the empty
  string. For a collection of \<open>N \<ge> 1\<close> records, what it returns is the header row
  \<^verbatim>\<open>ID,Name,Email,City,State,Postal Code,Type,Status,Gender,DOB,Submitted At\<close> followed by
  one row per record, in order, the rows joined by line feeds; each row is the join with
  commas of the eleven field texts, every one wrapped in double quotes as it is, with
  nothing escaped. The text has exactly \<open>N + 1\<close> lines provided that no row contains a
  line feed. It does return a text when the records are not null and their exported
  fields hold no array and no object.
\<close>

theorem export_csv_rows:
  assumes "getAllRegistrations st = JArr regs"
  shows "(regs = [] \<longrightarrow> exportToCSV fmt st = Inr [])
       \<and> (regs \<noteq> [] \<and> exportToCSV fmt st = Inr text \<longrightarrow>
            (\<exists>lines.
               text = join [0x0A]
                 ((units ''ID,Name,Email,City,State,Postal Code,Type,Status,Gender,DOB,Submitted At'') # lines)
             \<and> list_all2
                 (\<lambda>reg line. \<exists>row texts.
                    csv_row reg = Inr row \<and> length row = 11
                  \<and> js_map (ToString_js fmt) row = Inr texts
                  \<and> line = join (units '','') (map quoted texts))
                 regs lines
             \<and> (list_all (\<lambda>line. 0x0A \<notin> set line) lines \<longrightarrow>
                  line_count text = length regs + 1)))
       \<and> (regs \<noteq> []
            \<and> list_all (\<lambda>reg. reg \<noteq> JNull \<and> list_all (\<lambda>k. primitive (fmlookup (own_props reg) k))
                 [''id'', ''name'', ''email'', ''city'', ''state'', ''postalCode'', ''type'',
                  ''status'', ''gender'', ''dob'', ''submittedAt'']) regs \<longrightarrow>
            (\<exists>out. exportToCSV fmt st = Inr out))"
proof -
  have empty: "regs = [] \<longrightarrow> exportToCSV fmt st = Inr []"
    by (simp add: exportToCSV_array [OF assms])
  have rows: "\<exists>lines.
               text = join [0x0A]
                 ((units ''ID,Name,Email,City,State,Postal Code,Type,Status,Gender,DOB,Submitted At'') # lines)
             \<and> list_all2
                 (\<lambda>reg line. \<exists>row texts.
                    csv_row reg = Inr row \<and> length row = 11
                  \<and> js_map (ToString_js fmt) row = Inr texts
                  \<and> line = join (units '','') (map quoted texts))
                 regs lines
             \<and> (list_all (\<lambda>line. 0x0A \<notin> set line) lines \<longrightarrow>
                  line_count text = length regs + 1)"
    if ne: "regs \<noteq> []" and ret: "exportToCSV fmt st = Inr text"
  proof -
    from export_lines [OF assms ne ret] obtain rows lines where
      r: "js_map csv_row regs = Inr rows" and l: "js_map (csv_line fmt) rows = Inr lines"
      and shape: "text = join [0x0A] (join (units '','') headers # lines)"
      by blast
    have len: "length rows = length regs" "length lines = length regs"
      using js_map_nth(1) [OF r] js_map_nth(1) [OF l] by simp_all
    have each: "\<exists>row texts.
                    csv_row (regs ! j) = Inr row \<and> length row = 11
                  \<and> js_map (ToString_js fmt) row = Inr texts
                  \<and> lines ! j = join (units '','') (map quoted texts)"
      if j: "j < length regs" for j
    proof -
      have row: "csv_row (regs ! j) = Inr (rows ! j)"
        using js_map_nth(2) [OF r j] .
      have "csv_line fmt (rows ! j) = Inr (lines ! j)"
        using js_map_nth(2) [OF l, of j] j len by simp
      from csv_line_shape [OF this] csv_row_length [OF row] row show ?thesis
        by blast
    qed
    have all2: "list_all2
                 (\<lambda>reg line. \<exists>row texts.
                    csv_row reg = Inr row \<and> length row = 11
                  \<and> js_map (ToString_js fmt) row = Inr texts
                  \<and> line = join (units '','') (map quoted texts))
                 regs lines"
      using each len by (simp add: list_all2_conv_all_nth)
    have count: "line_count text = length regs + 1"
      if clean: "list_all (\<lambda>line. 0x0A \<notin> set line) lines"
    proof -
      have "list_all (\<lambda>line. 0x0A \<notin> set line) (join (units '','') headers # lines)"
        using clean unfolding headers_line by (simp add: units_def)
      from count_join_lines [OF this] show ?thesis
        by (simp add: line_count_def shape len)
    qed
    from shape all2 count show ?thesis
      by (auto simp: headers_line)
  qed
  have total: "\<exists>out. exportToCSV fmt st = Inr out"
    if ne: "regs \<noteq> []"
      and prim: "list_all (\<lambda>reg. reg \<noteq> JNull \<and> list_all (\<lambda>k. primitive (fmlookup (own_props reg) k))
                 [''id'', ''name'', ''email'', ''city'', ''state'', ''postalCode'', ''type'',
                  ''status'', ''gender'', ''dob'', ''submittedAt'']) regs"
  proof -
    from export_rows_total [OF prim, of fmt] obtain rows lines where
      "js_map csv_row regs = Inr rows" "js_map (csv_line fmt) rows = Inr lines"
      by blast
    then show ?thesis
      by (simp add: exportToCSV_array [OF assms] ne)
  qed
  from empty rows total show ?thesis
    by blast
qed

text \<open>The theorem on a collection of one record.\<close>

theorem export_csv_rows_witness:
  "getAllRegistrations
     (store_of [sample_registration])
   = JArr [sample_registration]
   \<and> exportToCSV (\<lambda>q. [])
     (store_of [sample_registration])
   = Inr ((units ''ID,Name,Email,City,State,Postal Code,Type,Status,Gender,DOB,Submitted At'') @ [0x0A]
          @ join (units '','') (map quoted (map units
              [''1'', ''Asha'', [], ''Pune'', ''MH'', ''411001'', ''Individual'', ''Active'', ''F'',
               ''2000-01-01'', ''T''])))
   \<and> list_all (\<lambda>reg. reg \<noteq> JNull \<and> list_all (\<lambda>k. primitive (fmlookup (own_props reg) k))
                 [''id'', ''name'', ''email'', ''city'', ''state'', ''postalCode'', ''type'',
                  ''status'', ''gender'', ''dob'', ''submittedAt''])
        [sample_registration]
   \<and> (\<exists>lines.
         ((units ''ID,Name,Email,City,State,Postal Code,Type,Status,Gender,DOB,Submitted At'') @ [0x0A]
          @ join (units '','') (map quoted (map units
              [''1'', ''Asha'', [], ''Pune'', ''MH'', ''411001'', ''Individual'', ''Active'', ''F'',
               ''2000-01-01'', ''T''])))
           = join [0x0A]
               ((units ''ID,Name,Email,City,State,Postal Code,Type,Status,Gender,DOB,Submitted At'') # lines)
         \<and> length lines = 1)
   \<and> line_count ((units ''ID,Name,Email,City,State,Postal Code,Type,Status,Gender,DOB,Submitted At'') @ [0x0A]
          @ join (units '','') (map quoted (map units
              [''1'', ''Asha'', [], ''Pune'', ''MH'', ''411001'', ''Individual'', ''Active'', ''F'',
               ''2000-01-01'', ''T'']))) = 2
   \<and> (\<exists>out. exportToCSV (\<lambda>q. [])
     (store_of [sample_registration]) = Inr out)"
proof -
  let ?r = "sample_registration"
  let ?st = "(store_of [?r])"
  let ?fmt = "\<lambda>q::rat. [] :: string"
  let ?text = "((units ''ID,Name,Email,City,State,Postal Code,Type,Status,Gender,DOB,Submitted At'') @ [0x0A]
          @ join (units '','') (map quoted (map units
              [''1'', ''Asha'', [], ''Pune'', ''MH'', ''411001'', ''Individual'', ''Active'', ''F'',
               ''2000-01-01'', ''T''])))"
  have h1: "getAllRegistrations ?st = JArr [?r]"
    by (simp add: getAllRegistrations_def)
  have h2: "exportToCSV ?fmt ?st = Inr ?text"
    by (simp add: exportToCSV_def getAllRegistrations_def csv_row_def csv_line_def quote_cell_def
          or_empty_def headers_def Number_toString_def nat_digits.simps units_def)
  have h3: "list_all (\<lambda>reg. reg \<noteq> JNull \<and> list_all (\<lambda>k. primitive (fmlookup (own_props reg) k))
                 [''id'', ''name'', ''email'', ''city'', ''state'', ''postalCode'', ''type'',
                  ''status'', ''gender'', ''dob'', ''submittedAt'']) [?r]"
    by simp
  have ne: "[?r] \<noteq> []"
    by simp
  note inst = export_csv_rows [OF h1, of ?fmt ?text]
  from inst ne h2 obtain lines where
    lines: "?text = join [0x0A]
               ((units ''ID,Name,Email,City,State,Postal Code,Type,Status,Gender,DOB,Submitted At'') # lines)"
    and all2: "list_all2
                 (\<lambda>reg line. \<exists>row texts.
                    csv_row reg = Inr row \<and> length row = 11
                  \<and> js_map (ToString_js ?fmt) row = Inr texts
                  \<and> line = join (units '','') (map quoted texts))
                 [?r] lines"
    by blast
  from all2 have "length lines = 1"
    by (simp add: list_all2_conv_all_nth)
  with lines have ex: "\<exists>lines. ?text = join [0x0A]
               ((units ''ID,Name,Email,City,State,Postal Code,Type,Status,Gender,DOB,Submitted At'') # lines)
         \<and> length lines = 1"
    by blast
  have count: "line_count ?text = 2"
    by (simp add: line_count_def units_def)
  from inst ne h3 have total: "\<exists>out. exportToCSV ?fmt ?st = Inr out"
    by blast
  from h1 h2 h3 ex count total show ?thesis
    by blast
qed

text \<open>
  The count of lines is not always \<open>N + 1\<close>: a line feed inside a field goes into the
  output as it is, so the export of one record whose name has two lines is a text of
  three lines.
\<close>

theorem export_csv_newline_counterexample:
  "getAllRegistrations
     (store_of [sample_two_line_name])
   = JArr [sample_two_line_name]
   \<and> exportToCSV (\<lambda>q. [])
     (store_of [sample_two_line_name])
   = Inr ((units ''ID,Name,Email,City,State,Postal Code,Type,Status,Gender,DOB,Submitted At'') @ [0x0A]
          @ join (units '','') (map quoted (map units
              [''1'', [CHR ''A'', CHR 0x0A, CHR ''B''], [], ''Pune'', ''MH'', ''411001'', ''Individual'', ''Active'', ''F'',
               ''2000-01-01'', ''T''])))
   \<and> line_count ((units ''ID,Name,Email,City,State,Postal Code,Type,Status,Gender,DOB,Submitted At'') @ [0x0A]
          @ join (units '','') (map quoted (map units
              [''1'', [CHR ''A'', CHR 0x0A, CHR ''B''], [], ''Pune'', ''MH'', ''411001'', ''Individual'', ''Active'', ''F'',
               ''2000-01-01'', ''T'']))) = 3"
  by (simp add: exportToCSV_def getAllRegistrations_def csv_row_def csv_line_def quote_cell_def
          or_empty_def headers_def Number_toString_def nat_digits.simps line_count_def units_def)

lemma csv_row_email:
  "csv_row reg = Inr row \<Longrightarrow> get_prop reg ''email'' = Inr email \<Longrightarrow> row ! 2 = or_empty email"
  by (auto simp: csv_row_def bind_e_def split: sum.splits)

text \<open>
  Claim C10: when \<^verbatim>\<open>exportToCSV\<close> returns a text for a collection, the third cell of the
  row of a record, under the header \<^verbatim>\<open>Email\<close>, is the quoted text of the record's
  \<^verbatim>\<open>email\<close> property if that is truthy and of the empty string otherwise. In particular
  every record that has no \<^verbatim>\<open>email\<close> property gets the cell made of two double quotes:
  the empty string, quoted.
\<close>

theorem export_csv_email_cell:
  assumes "getAllRegistrations st = JArr regs"
    and "exportToCSV fmt st = Inr text"
    and "i < length regs"
    and "get_prop (regs ! i) ''email'' = Inr email"
  shows "\<exists>lines texts.
           text = join [0x0A] (join (units '','') headers # lines)
         \<and> length lines = length regs
         \<and> length texts = 11
         \<and> lines ! i = join (units '','') (map quoted texts)
         \<and> headers ! 2 = units ''Email''
         \<and> ToString_js fmt (if truthy_js email then email else Some (JStr [])) = Inr (texts ! 2)
         \<and> (email = None \<longrightarrow>
               map quoted texts ! 2 = [0x22, 0x22])"
proof -
  from assms(3) have ne: "regs \<noteq> []"
    by auto
  from export_lines [OF assms(1) ne assms(2)] obtain rows lines where
    r: "js_map csv_row regs = Inr rows" and l: "js_map (csv_line fmt) rows = Inr lines"
    and shape: "text = join [0x0A] (join (units '','') headers # lines)"
    by blast
  have len: "length rows = length regs" "length lines = length regs"
    using js_map_nth(1) [OF r] js_map_nth(1) [OF l] by simp_all
  have row: "csv_row (regs ! i) = Inr (rows ! i)"
    using js_map_nth(2) [OF r assms(3)] .
  have "csv_line fmt (rows ! i) = Inr (lines ! i)"
    using js_map_nth(2) [OF l, of i] assms(3) len by simp
  from csv_line_shape [OF this] obtain texts where
    t: "js_map (ToString_js fmt) (rows ! i) = Inr texts"
    and line: "lines ! i = join (units '','') (map quoted texts)"
    by blast
  have n: "length texts = 11"
    using js_map_nth(1) [OF t] csv_row_length [OF row] by simp
  have "ToString_js fmt (rows ! i ! 2) = Inr (texts ! 2)"
    using js_map_nth(2) [OF t, of 2] csv_row_length [OF row] by simp
  then have third: "ToString_js fmt (if truthy_js email then email else Some (JStr [])) = Inr (texts ! 2)"
    using csv_row_email [OF row assms(4)] by (simp add: or_empty_def)
  have cell: "map quoted texts ! 2 = [0x22, 0x22]"
    if "email = None"
    using third n that by simp
  have "headers ! 2 = units ''Email''"
    by (simp add: headers_def)
  with shape len n line third cell show ?thesis
    by blast
qed

text \<open>The theorem on a collection of one record without \<^verbatim>\<open>email\<close>.\<close>

theorem export_csv_email_cell_witness:
  "getAllRegistrations
     (store_of [sample_registration])
   = JArr [sample_registration]
   \<and> exportToCSV (\<lambda>q. [])
     (store_of [sample_registration])
   = Inr ((units ''ID,Name,Email,City,State,Postal Code,Type,Status,Gender,DOB,Submitted At'') @ [0x0A]
          @ join (units '','') (map quoted (map units
              [''1'', ''Asha'', [], ''Pune'', ''MH'', ''411001'', ''Individual'', ''Active'', ''F'',
               ''2000-01-01'', ''T''])))
   \<and> (0::nat) < length [sample_registration]
   \<and> get_prop ([sample_registration] ! 0) ''email'' = Inr None
   \<and> (\<exists>lines texts.
         ((units ''ID,Name,Email,City,State,Postal Code,Type,Status,Gender,DOB,Submitted At'') @ [0x0A]
          @ join (units '','') (map quoted (map units
              [''1'', ''Asha'', [], ''Pune'', ''MH'', ''411001'', ''Individual'', ''Active'', ''F'',
               ''2000-01-01'', ''T'']))) = join [0x0A] (join (units '','') headers # lines)
         \<and> length lines = 1
         \<and> length texts = 11
         \<and> lines ! 0 = join (units '','') (map quoted texts)
         \<and> headers ! 2 = units ''Email''
         \<and> texts ! 2 = []
         \<and> map quoted texts ! 2 = [0x22, 0x22])"
proof -
  let ?r = "sample_registration"
  let ?st = "(store_of [?r])"
  let ?fmt = "\<lambda>q::rat. [] :: string"
  let ?text = "((units ''ID,Name,Email,City,State,Postal Code,Type,Status,Gender,DOB,Submitted At'') @ [0x0A]
          @ join (units '','') (map quoted (map units
              [''1'', ''Asha'', [], ''Pune'', ''MH'', ''411001'', ''Individual'', ''Active'', ''F'',
               ''2000-01-01'', ''T''])))"
  have h1: "getAllRegistrations ?st = JArr [?r]"
    by (simp add: getAllRegistrations_def)
  have h2: "exportToCSV ?fmt ?st = Inr ?text"
    by (simp add: exportToCSV_def getAllRegistrations_def csv_row_def csv_line_def quote_cell_def
          or_empty_def headers_def Number_toString_def nat_digits.simps units_def)
  have h3: "(0::nat) < length [?r]"
    by simp
  have h4: "get_prop ([?r] ! 0) ''email'' = Inr None"
    by simp
  from export_csv_email_cell [OF h1 h2 h3 h4] obtain lines texts where
    a: "?text = join [0x0A] (join (units '','') headers # lines)"
    and b: "length lines = length [?r]"
    and c: "length texts = 11"
    and d: "lines ! 0 = join (units '','') (map quoted texts)"
    and e: "headers ! 2 = units ''Email''"
    and f: "ToString_js ?fmt (if truthy_js None then None else Some (JStr [])) = Inr (texts ! 2)"
    and g: "map quoted texts ! 2 = [0x22, 0x22]"
    by blast
  from f have f': "texts ! 2 = []"
    by simp
  from b have b': "length lines = 1"
    by simp
  from a b' c d e f' g have "\<exists>lines texts.
         ?text = join [0x0A] (join (units '','') headers # lines)
         \<and> length lines = 1
         \<and> length texts = 11
         \<and> lines ! 0 = join (units '','') (map quoted texts)
         \<and> headers ! 2 = units ''Email''
         \<and> texts ! 2 = []
         \<and> map quoted texts ! 2 = [0x22, 0x22]"
    by blast
  with h1 h2 h3 h4 show ?thesis
    by blast
qed

end
